theory Spec2Isabelle
  imports Main
begin

section \<open>The swap-request store\<close>

text \<open>
  The pages \<^verbatim>\<open>Discover.tsx\<close> and \<^verbatim>\<open>Dashboard.tsx\<close> talk to three tables through
  the supabase client: \<^verbatim>\<open>users\<close>, \<^verbatim>\<open>swap_requests\<close> and \<^verbatim>\<open>notifications\<close>.
  User and row identifiers (uuid strings in the source) are natural numbers here; they
  are only ever compared for equality.
\<close>

datatype status = Pending | Matched | Rejected

datatype swipe_type = Normal | Super

record swap_request =
  sr_id :: nat
  created_at :: nat
  from_user_id :: nat
  to_user_id :: nat
  swipe_type :: swipe_type
  status :: status

record notification =
  user_id :: nat
  n_type :: string
  title :: string
  message :: string

text \<open>A row of \<^verbatim>\<open>users\<close> with the skill names its two embedded relations select.\<close>

record user_row =
  u_id :: nat
  fullname :: "string option"
  location :: "string option"
  description :: "string option"
  profile_pic :: "string option"
  user_skill_offer :: "string list"
  user_skill_want :: "string list"

text \<open>The error object of a supabase response; the source reads only its \<^verbatim>\<open>code\<close>.\<close>

record pg_error =
  code :: string

text \<open>Every request the client sends is recorded, whether or not the store serves it.\<close>

datatype store_call =
  SelectUsers | InsertSwapRequest | SelectSwapRequests | UpdateSwapRequests | InsertNotification

record world =
  users :: "user_row list"
  swap_requests :: "swap_request list"
  notifications :: "notification list"
  next_id :: nat
  clock :: nat
  calls :: "store_call list"

text \<open>
  The environment decides which requests fail: \<open>net n = Some e\<close> means that the
  request sent when \<open>n\<close> requests have been sent before comes back as
  \<^verbatim>\<open>{ data: null, error: e }\<close> without touching the tables (an outage, or a constraint
  of the schema that is not visible in the pages). The client returns such errors as
  values; it does not throw.
\<close>

type_synonym net = "nat \<Rightarrow> pg_error option"

definition issue :: "store_call \<Rightarrow> world \<Rightarrow> world" where
  "issue c w = w\<lparr>calls := calls w @ [c]\<rparr>"

definition from_to :: "nat \<Rightarrow> nat \<Rightarrow> swap_request \<Rightarrow> bool" where
  "from_to f t r = (from_user_id r = f \<and> to_user_id r = t)"

text \<open>A request as a directed signal: sender, receiver and status.\<close>

definition signal :: "swap_request \<Rightarrow> nat \<times> nat \<times> status" where
  "signal r = (from_user_id r, to_user_id r, status r)"

definition duplicate_key :: pg_error where
  "duplicate_key = \<lparr>code = ''23505''\<rparr>"

text \<open>
  Modelled from the spec: the schema of \<^verbatim>\<open>swap_requests\<close> is not among the sources.
  The spec's uniqueness invariant (at most one signal per ordered pair of initiator and
  target) is the unique constraint whose violation \<^verbatim>\<open>handleSwipe\<close> recognises as error
  code 23505; the row identifier and the creation time are filled in by the store.
\<close>

definition insert_swap_request ::
  "net \<Rightarrow> nat \<Rightarrow> nat \<Rightarrow> swipe_type \<Rightarrow> status \<Rightarrow> world \<Rightarrow> pg_error option \<times> world" where
  "insert_swap_request net f t k s w =
     (case net (length (calls w)) of
        Some e \<Rightarrow> (Some e, issue InsertSwapRequest w)
      | None \<Rightarrow>
          if list_ex (from_to f t) (swap_requests w)
          then (Some duplicate_key, issue InsertSwapRequest w)
          else (None,
                (issue InsertSwapRequest w)
                  \<lparr>swap_requests := swap_requests w @
                     [\<lparr>sr_id = next_id w, created_at = clock w, from_user_id = f,
                       to_user_id = t, swipe_type = k, status = s\<rparr>],
                   next_id := Suc (next_id w)\<rparr>))"

text \<open>\<^verbatim>\<open>.single()\<close>: the row when exactly one row matches, otherwise no data.\<close>

definition single :: "'a list \<Rightarrow> 'a option" where
  "single xs = (case xs of [x] \<Rightarrow> Some x | _ \<Rightarrow> None)"

definition pending_from_to :: "nat \<Rightarrow> nat \<Rightarrow> swap_request list \<Rightarrow> swap_request list" where
  "pending_from_to f t rows = filter (\<lambda>r. from_to f t r \<and> status r = Pending) rows"

text \<open>
  \<^verbatim>\<open>select('*').eq('from_user_id', f).eq('to_user_id', t).eq('status', 'pending').single()\<close>;
  the caller destructures \<^verbatim>\<open>data\<close> only.
\<close>

definition select_single_pending ::
  "net \<Rightarrow> nat \<Rightarrow> nat \<Rightarrow> world \<Rightarrow> swap_request option \<times> world" where
  "select_single_pending net f t w =
     (case net (length (calls w)) of
        Some e \<Rightarrow> (None, issue SelectSwapRequests w)
      | None \<Rightarrow>
          (single (pending_from_to f t (swap_requests w)), issue SelectSwapRequests w))"

definition set_status :: "nat list \<Rightarrow> status \<Rightarrow> swap_request list \<Rightarrow> swap_request list" where
  "set_status ids s rows = map (\<lambda>r. if sr_id r \<in> set ids then r\<lparr>status := s\<rparr> else r) rows"

text \<open>\<^verbatim>\<open>update({ status: s }).in('id', ids)\<close>; \<^verbatim>\<open>.eq('id', i)\<close> is the list \<open>[i]\<close>.\<close>

definition update_status :: "net \<Rightarrow> nat list \<Rightarrow> status \<Rightarrow> world \<Rightarrow> pg_error option \<times> world" where
  "update_status net ids s w =
     (case net (length (calls w)) of
        Some e \<Rightarrow> (Some e, issue UpdateSwapRequests w)
      | None \<Rightarrow>
          (None,
           (issue UpdateSwapRequests w)\<lparr>swap_requests := set_status ids s (swap_requests w)\<rparr>))"

definition insert_notification :: "net \<Rightarrow> notification \<Rightarrow> world \<Rightarrow> pg_error option \<times> world" where
  "insert_notification net n w =
     (case net (length (calls w)) of
        Some e \<Rightarrow> (Some e, issue InsertNotification w)
      | None \<Rightarrow>
          (None, (issue InsertNotification w)\<lparr>notifications := notifications w @ [n]\<rparr>))"

section \<open>Discover: the swipe deck\<close>

text \<open>
  The \<^verbatim>\<open>Profile\<close> interface without \<^verbatim>\<open>rating\<close>, a random floating-point mock that
  nothing reads back.
\<close>

record profile =
  p_id :: nat
  p_name :: string
  age :: nat
  p_location :: string
  canTeach :: "string list"
  wantToLearn :: "string list"
  bio :: string
  availability :: string
  badges :: "string list"

datatype direction = Left | Right | Up | Down

text \<open>
  What the page shows or logs: the card animation, the confetti and the toast of
  \<^verbatim>\<open>triggerMatch\<close> (with the profile's name), the toast per direction,
  \<^verbatim>\<open>console.error\<close>, and the plain success and error toasts.
\<close>

datatype ui_event =
  CardExit direction | CardReset | Confetti | MatchToast string | SwipeToast direction
  | ConsoleError string | ToastError string | ToastSuccess string

record discover =
  profiles :: "profile list"
  currentIndex :: nat
  isAnimating :: bool
  dailySwipes :: int
  loading :: bool
  events :: "ui_event list"

text \<open>JavaScript's \<^verbatim>\<open>s || d\<close> on a nullable string: null and the empty string give \<open>d\<close>.\<close>

definition or_else :: "string option \<Rightarrow> string \<Rightarrow> string" where
  "or_else s d = (case s of None \<Rightarrow> d | Some x \<Rightarrow> if x = [] then d else x)"

definition transform_profile :: "user_row \<Rightarrow> profile" where
  "transform_profile u =
     \<lparr>p_id = u_id u, p_name = or_else (fullname u) ''Anonymous'', age = 25,
      p_location = or_else (location u) ''Unknown'', canTeach = user_skill_offer u,
      wantToLearn = user_skill_want u, bio = or_else (description u) ''No bio available'',
      availability = ''Flexible'', badges = [''Active User'']\<rparr>"

text \<open>
  The query of \<^verbatim>\<open>fetchProfiles\<close>: both embedded relations are inner joins, so a user
  without an offered or without a wanted skill is dropped; \<^verbatim>\<open>.neq('id', user.id)\<close>;
  \<^verbatim>\<open>.limit(10)\<close>.
\<close>

definition select_users :: "net \<Rightarrow> nat \<Rightarrow> world \<Rightarrow> (pg_error + user_row list) \<times> world" where
  "select_users net user w =
     (case net (length (calls w)) of
        Some e \<Rightarrow> (Inl e, issue SelectUsers w)
      | None \<Rightarrow>
          (Inr (take 10 (filter (\<lambda>u. user_skill_offer u \<noteq> [] \<and> user_skill_want u \<noteq> []
                                     \<and> u_id u \<noteq> user) (users w))),
           issue SelectUsers w))"

definition fetchProfiles :: "net \<Rightarrow> nat \<Rightarrow> discover \<times> world \<Rightarrow> discover \<times> world" where
  "fetchProfiles net user = (\<lambda>(d, w).
     case select_users net user w of
       (Inl e, w1) \<Rightarrow>
         (d\<lparr>events := events d @ [ConsoleError ''Error fetching profiles:'',
                                    ToastError ''Failed to load profiles''],
            loading := False\<rparr>, w1)
     | (Inr us, w1) \<Rightarrow> (d\<lparr>profiles := map transform_profile us, loading := False\<rparr>, w1))"

definition match_notification :: "nat \<Rightarrow> profile \<Rightarrow> notification" where
  "match_notification user p =
     \<lparr>user_id = user, n_type = ''match'', title = ''New Match!'',
      message = ''You matched with '' @ p_name p @ ''!''\<rparr>"

text \<open>
  The \<^verbatim>\<open>try\<close> block of \<^verbatim>\<open>handleSwipe\<close> with its \<^verbatim>\<open>catch\<close>. The only \<^verbatim>\<open>throw\<close> is
  the one after the insert, for an error whose code is not 23505; the results of the
  update and of the notification insert are awaited and dropped. This is one run on a
  store that nobody else writes to between the four requests; \<open>swipe_try_among\<close> below
  is the run among other clients.
\<close>

definition swipe_try :: "net \<Rightarrow> nat \<Rightarrow> profile \<Rightarrow> direction \<Rightarrow> world \<Rightarrow> ui_event list \<times> world" where
  "swipe_try net user currentProfile dir w =
     (case insert_swap_request net user (p_id currentProfile)
             (if dir = Up then Super else Normal) Pending w of
        (error, w1) \<Rightarrow>
          if (case error of None \<Rightarrow> False | Some e \<Rightarrow> code e \<noteq> ''23505'')
          then ([ConsoleError ''Error handling swipe:''], w1)
          else
            (case select_single_pending net (p_id currentProfile) user w1 of
               (None, w2) \<Rightarrow> ([], w2)
             | (Some mutualMatch, w2) \<Rightarrow>
                 (case update_status net [sr_id mutualMatch] Matched w2 of
                    (_, w3) \<Rightarrow>
                      (case insert_notification net (match_notification user currentProfile) w3 of
                         (_, w4) \<Rightarrow> ([Confetti, MatchToast (p_name currentProfile)], w4)))))"

text \<open>
  \<^verbatim>\<open>handleSwipe\<close> for the signed-in user \<open>user\<close> (the deck is only filled for one).
  \<^verbatim>\<open>currentProfile\<close> is \<^verbatim>\<open>profiles[currentIndex]\<close>, in range past the first guard.
\<close>

definition handleSwipe :: "net \<Rightarrow> nat \<Rightarrow> direction \<Rightarrow> discover \<times> world \<Rightarrow> discover \<times> world" where
  "handleSwipe net user dir = (\<lambda>(d, w).
     if isAnimating d \<or> currentIndex d \<ge> length (profiles d) then (d, w)
     else
       (let currentProfile = profiles d ! currentIndex d;
            d1 = d\<lparr>isAnimating := True, dailySwipes := max 0 (dailySwipes d - 1),
                   events := events d @ [CardExit dir]\<rparr>;
            (evs, w') = (if dir = Right \<or> dir = Up then swipe_try net user currentProfile dir w
                         else ([], w))
        in (d1\<lparr>events := events d1 @ evs @ [SwipeToast dir, CardReset],
               currentIndex := currentIndex d + 1, isAnimating := False\<rparr>, w')))"

text \<open>
  Every request of the \<^verbatim>\<open>try\<close> block is awaited on its own, so between two of them
  other clients (another page of the same user, another user) may write to the store.
  What they do in such a gap is a function on the store; \<open>nobody\<close> does nothing.
\<close>

type_synonym others = "world \<Rightarrow> world"

definition nobody :: others where
  "nobody = (\<lambda>w. w)"

text \<open>
  The first half of the \<^verbatim>\<open>try\<close> block: the insert, its \<^verbatim>\<open>throw\<close> (\<open>Inl\<close>), and
  after a gap the lookup of the reverse request (\<open>Inr\<close> with \<^verbatim>\<open>mutualMatch\<close>).
\<close>

definition swipe_lookup ::
  "net \<Rightarrow> nat \<Rightarrow> profile \<Rightarrow> direction \<Rightarrow> others \<Rightarrow> world
     \<Rightarrow> (pg_error + swap_request option) \<times> world" where
  "swipe_lookup net user currentProfile dir gap1 w =
     (case insert_swap_request net user (p_id currentProfile)
             (if dir = Up then Super else Normal) Pending w of
        (error, w1) \<Rightarrow>
          (case (case error of
                   None \<Rightarrow> None
                 | Some e \<Rightarrow> if code e \<noteq> ''23505'' then Some e else None) of
             Some thrown \<Rightarrow> (Inl thrown, w1)
           | None \<Rightarrow>
               (case select_single_pending net (p_id currentProfile) user (gap1 w1) of
                  (mutualMatch, w2) \<Rightarrow> (Inr mutualMatch, w2))))"

text \<open>
  The second half, run when \<^verbatim>\<open>mutualMatch\<close> is not null: the update by the
  identifier the lookup returned, and after a gap the notification insert.
\<close>

definition swipe_commit ::
  "net \<Rightarrow> nat \<Rightarrow> profile \<Rightarrow> others \<Rightarrow> swap_request \<Rightarrow> world \<Rightarrow> world" where
  "swipe_commit net user currentProfile gap3 mutualMatch w =
     (case update_status net [sr_id mutualMatch] Matched w of
        (_, w3) \<Rightarrow>
          snd (insert_notification net (match_notification user currentProfile) (gap3 w3)))"

text \<open>
  The \<^verbatim>\<open>try\<close> block among other clients: \<open>gap1\<close> between insert and lookup,
  \<open>gap2\<close> between lookup and update, \<open>gap3\<close> between update and notification.
\<close>

definition swipe_try_among ::
  "net \<Rightarrow> nat \<Rightarrow> profile \<Rightarrow> direction \<Rightarrow> others \<Rightarrow> others \<Rightarrow> others \<Rightarrow> world
     \<Rightarrow> ui_event list \<times> world" where
  "swipe_try_among net user currentProfile dir gap1 gap2 gap3 w =
     (case swipe_lookup net user currentProfile dir gap1 w of
        (Inl e, w1) \<Rightarrow> ([ConsoleError ''Error handling swipe:''], w1)
      | (Inr None, w2) \<Rightarrow> ([], w2)
      | (Inr (Some mutualMatch), w2) \<Rightarrow>
          ([Confetti, MatchToast (p_name currentProfile)],
           swipe_commit net user currentProfile gap3 mutualMatch (gap2 w2)))"

definition handleSwipe_among ::
  "net \<Rightarrow> nat \<Rightarrow> direction \<Rightarrow> others \<Rightarrow> others \<Rightarrow> others \<Rightarrow> discover \<times> world
     \<Rightarrow> discover \<times> world" where
  "handleSwipe_among net user dir gap1 gap2 gap3 = (\<lambda>(d, w).
     if isAnimating d \<or> currentIndex d \<ge> length (profiles d) then (d, w)
     else
       (let currentProfile = profiles d ! currentIndex d;
            d1 = d\<lparr>isAnimating := True, dailySwipes := max 0 (dailySwipes d - 1),
                   events := events d @ [CardExit dir]\<rparr>;
            (evs, w') = (if dir = Right \<or> dir = Up
                         then swipe_try_among net user currentProfile dir gap1 gap2 gap3 w
                         else ([], w))
        in (d1\<lparr>events := events d1 @ evs @ [SwipeToast dir, CardReset],
               currentIndex := currentIndex d + 1, isAnimating := False\<rparr>, w')))"

definition resetStack :: "discover \<Rightarrow> discover" where
  "resetStack d = d\<lparr>currentIndex := 0,
                     events := events d @ [CardReset, ToastSuccess ''New profiles loaded!'']\<rparr>"

section \<open>Dashboard: matches and pending requests\<close>

record person =
  pu_id :: nat
  pu_name :: string
  avatar :: string
  skills :: "string list"

record match_entry =
  m_id :: nat
  m_user :: person
  matchedAt :: nat
  m_status :: string

record pending_request =
  pr_id :: nat
  fromUser :: person
  swipeType :: swipe_type
  createdAt :: nat

record dashboard =
  matches :: "match_entry list"
  pendingRequests :: "pending_request list"
  dash_loading :: bool
  dash_events :: "ui_event list"

text \<open>
  Both queries embed \<^verbatim>\<open>users!swap_requests_from_user_id_fkey(...)\<close>: the row of the
  request's sender, null if there is none.
\<close>

definition embed_from_user :: "user_row list \<Rightarrow> swap_request \<Rightarrow> swap_request \<times> user_row option" where
  "embed_from_user us r = (r, find (\<lambda>u. u_id u = from_user_id r) us)"

definition is_match_of :: "nat \<Rightarrow> swap_request \<Rightarrow> bool" where
  "is_match_of user r = (status r = Matched \<and> (from_user_id r = user \<or> to_user_id r = user))"

text \<open>\<^verbatim>\<open>.eq('status', 'matched').or(`from_user_id.eq.${user},to_user_id.eq.${user}`)\<close>\<close>

definition select_matched ::
  "net \<Rightarrow> nat \<Rightarrow> world \<Rightarrow> (pg_error + (swap_request \<times> user_row option) list) \<times> world" where
  "select_matched net user w =
     (case net (length (calls w)) of
        Some e \<Rightarrow> (Inl e, issue SelectSwapRequests w)
      | None \<Rightarrow>
          (Inr (map (embed_from_user (users w)) (filter (is_match_of user) (swap_requests w))),
           issue SelectSwapRequests w))"

definition is_pending_to :: "nat \<Rightarrow> swap_request \<Rightarrow> bool" where
  "is_pending_to user r = (to_user_id r = user \<and> status r = Pending)"

text \<open>\<^verbatim>\<open>.eq('to_user_id', user).eq('status', 'pending')\<close>\<close>

definition select_pending_to ::
  "net \<Rightarrow> nat \<Rightarrow> world \<Rightarrow> (pg_error + (swap_request \<times> user_row option) list) \<times> world" where
  "select_pending_to net user w =
     (case net (length (calls w)) of
        Some e \<Rightarrow> (Inl e, issue SelectSwapRequests w)
      | None \<Rightarrow>
          (Inr (map (embed_from_user (users w)) (filter (is_pending_to user) (swap_requests w))),
           issue SelectSwapRequests w))"

definition default_avatar :: string where
  "default_avatar =
     ''https://images.pexels.com/photos/774909/pexels-photo-774909.jpeg?auto=compress&cs=tinysrgb&w=100''"

definition to_person :: "user_row \<Rightarrow> person" where
  "to_person u = \<lparr>pu_id = u_id u, pu_name = or_else (fullname u) ''Anonymous'',
                  avatar = or_else (profile_pic u) default_avatar, skills = user_skill_offer u\<rparr>"

text \<open>
  The callbacks of the two \<^verbatim>\<open>map\<close> calls. Both branches of \<^verbatim>\<open>otherUser\<close> are
  \<^verbatim>\<open>match.users\<close>. Reading \<^verbatim>\<open>.id\<close> of a null embedded row throws a TypeError:
  \<open>None\<close>.
\<close>

definition transform_match :: "swap_request \<times> user_row option \<Rightarrow> match_entry option" where
  "transform_match = (\<lambda>(m, us).
     case us of
       None \<Rightarrow> None
     | Some otherUser \<Rightarrow>
         Some \<lparr>m_id = sr_id m, m_user = to_person otherUser, matchedAt = created_at m,
               m_status = ''matched''\<rparr>)"

definition transform_request :: "swap_request \<times> user_row option \<Rightarrow> pending_request option" where
  "transform_request = (\<lambda>(request, us).
     case us of
       None \<Rightarrow> None
     | Some u \<Rightarrow>
         Some \<lparr>pr_id = sr_id request, fromUser = to_person u, swipeType = swipe_type request,
               createdAt = created_at request\<rparr>)"

definition matches_failed :: "dashboard \<Rightarrow> dashboard" where
  "matches_failed d = d\<lparr>dash_events := dash_events d @
     [ConsoleError ''Error fetching matches:'', ToastError ''Failed to load matches'']\<rparr>"

definition fetchMatches :: "net \<Rightarrow> nat \<Rightarrow> dashboard \<times> world \<Rightarrow> dashboard \<times> world" where
  "fetchMatches net user = (\<lambda>(d, w).
     case select_matched net user w of
       (Inl error, w1) \<Rightarrow> (matches_failed d, w1)
     | (Inr data, w1) \<Rightarrow>
         (case those (map transform_match data) of
            None \<Rightarrow> (matches_failed d, w1)
          | Some transformedMatches \<Rightarrow> (d\<lparr>matches := transformedMatches\<rparr>, w1)))"

definition pending_failed :: "dashboard \<Rightarrow> dashboard" where
  "pending_failed d = d\<lparr>dash_events := dash_events d @
     [ConsoleError ''Error fetching pending requests:'',
      ToastError ''Failed to load pending requests''],
     dash_loading := False\<rparr>"

definition fetchPendingRequests :: "net \<Rightarrow> nat \<Rightarrow> dashboard \<times> world \<Rightarrow> dashboard \<times> world" where
  "fetchPendingRequests net user = (\<lambda>(d, w).
     case select_pending_to net user w of
       (Inl error, w1) \<Rightarrow> (pending_failed d, w1)
     | (Inr data, w1) \<Rightarrow>
         (case those (map transform_request data) of
            None \<Rightarrow> (pending_failed d, w1)
          | Some transformedRequests \<Rightarrow>
              (d\<lparr>pendingRequests := transformedRequests, dash_loading := False\<rparr>, w1)))"

definition accept_notification :: "pending_request \<Rightarrow> notification" where
  "accept_notification request =
     \<lparr>user_id = pu_id (fromUser request), n_type = ''match'', title = ''Match Accepted!'',
      message = ''Your swap request was accepted!''\<rparr>"

text \<open>
  The part of \<^verbatim>\<open>handleAcceptRequest\<close> before the two list reloads: the update by id,
  the \<^verbatim>\<open>throw\<close> on its error (caught, logged and shown), the notification for the sender
  when the request is in the loaded list, and the success toast (its emoji left out).
\<close>

definition accept_try :: "net \<Rightarrow> nat \<Rightarrow> dashboard \<times> world \<Rightarrow> bool \<times> dashboard \<times> world" where
  "accept_try net requestId = (\<lambda>(d, w).
     case update_status net [requestId] Matched w of
       (Some error, w1) \<Rightarrow>
         (False,
          d\<lparr>dash_events := dash_events d @ [ConsoleError ''Error accepting request:'',
                                              ToastError ''Failed to accept request'']\<rparr>, w1)
     | (None, w1) \<Rightarrow>
         (let w2 = (case find (\<lambda>r. pr_id r = requestId) (pendingRequests d) of
                      None \<Rightarrow> w1
                    | Some request \<Rightarrow> snd (insert_notification net (accept_notification request) w1))
          in (True, d\<lparr>dash_events := dash_events d @ [ToastSuccess ''Request accepted!'']\<rparr>, w2)))"

text \<open>
  \<^verbatim>\<open>fetchMatches()\<close> and \<^verbatim>\<open>fetchPendingRequests()\<close> are started without
  \<^verbatim>\<open>await\<close>, so the source does not fix which of the two requests reaches the store
  first, nor which answer is handled first. Here the matches are loaded first and the
  pending requests second. Both are reads; the order shows only when one of them fails.
\<close>

definition handleAcceptRequest :: "net \<Rightarrow> nat \<Rightarrow> nat \<Rightarrow> dashboard \<times> world \<Rightarrow> dashboard \<times> world" where
  "handleAcceptRequest net user requestId dw =
     (case accept_try net requestId dw of
        (False, d1, w1) \<Rightarrow> (d1, w1)
      | (True, d1, w1) \<Rightarrow> fetchPendingRequests net user (fetchMatches net user (d1, w1)))"

definition handleRejectRequest :: "net \<Rightarrow> nat \<Rightarrow> nat \<Rightarrow> dashboard \<times> world \<Rightarrow> dashboard \<times> world" where
  "handleRejectRequest net user requestId = (\<lambda>(d, w).
     case update_status net [requestId] Rejected w of
       (Some error, w1) \<Rightarrow>
         (d\<lparr>dash_events := dash_events d @ [ConsoleError ''Error rejecting request:'',
                                              ToastError ''Failed to reject request'']\<rparr>, w1)
     | (None, w1) \<Rightarrow>
         fetchPendingRequests net user
           (d\<lparr>dash_events := dash_events d @ [ToastSuccess ''Request rejected'']\<rparr>, w1))"

text \<open>
  The dashboard as mounted: empty lists, then the two loads of the effect, in the same
  chosen order.
\<close>

definition dashboard0 :: dashboard where
  "dashboard0 = \<lparr>matches = [], pendingRequests = [], dash_loading = True, dash_events = []\<rparr>"

definition open_dashboard :: "net \<Rightarrow> nat \<Rightarrow> world \<Rightarrow> dashboard \<times> world" where
  "open_dashboard net user w = fetchPendingRequests net user (fetchMatches net user (dashboard0, w))"

text \<open>The store never fails.\<close>

definition online :: net where
  "online = (\<lambda>n. None)"

section \<open>Well-formed tables\<close>

text \<open>
  The row identifier is the primary key: identifiers are distinct, and the store has not
  yet handed out the identifier it will give to the next row.
\<close>

definition wf_world :: "world \<Rightarrow> bool" where
  "wf_world w = (distinct (map sr_id (swap_requests w))
                 \<and> list_all (\<lambda>r. sr_id r < next_id w) (swap_requests w))"

section \<open>Concrete scenarios\<close>

definition ann_row :: user_row where
  "ann_row = \<lparr>u_id = 1, fullname = Some ''Ann'', location = None, description = None,
              profile_pic = None, user_skill_offer = [''Piano''], user_skill_want = [''Chess'']\<rparr>"

definition bob_row :: user_row where
  "bob_row = \<lparr>u_id = 2, fullname = Some ''Bob'', location = None, description = None,
              profile_pic = None, user_skill_offer = [''Chess''], user_skill_want = [''Piano'']\<rparr>"

definition fresh_world :: world where
  "fresh_world = \<lparr>users = [ann_row, bob_row], swap_requests = [], notifications = [],
                  next_id = 0, clock = 0, calls = []\<rparr>"

definition deck0 :: discover where
  "deck0 = \<lparr>profiles = [], currentIndex = 0, isAnimating = False, dailySwipes = 15,
            loading = True, events = []\<rparr>"

text \<open>The decks Ann (user 1) and Bob (user 2) get on opening the page.\<close>

definition ann_deck :: discover where
  "ann_deck = fst (fetchProfiles online 1 (deck0, fresh_world))"

definition bob_deck :: discover where
  "bob_deck = fst (fetchProfiles online 2 (deck0, fresh_world))"

text \<open>Ann swipes right on Bob: one pending request from 1 to 2.\<close>

definition ann_swiped :: world where
  "ann_swiped = snd (handleSwipe online 1 Right (ann_deck, fresh_world))"

text \<open>Then Bob swipes right on Ann.\<close>

definition bob_swiped :: world where
  "bob_swiped = snd (handleSwipe online 2 Right (bob_deck, ann_swiped))"

text \<open>
  Ann's deck is used up after her swipe; she presses the button that starts it again
  and swipes right on Bob a second time.
\<close>

definition ann_deck_again :: discover where
  "ann_deck_again = resetStack (fst (handleSwipe online 1 Right (ann_deck, fresh_world)))"

definition ann_reswiped :: world where
  "ann_reswiped = snd (handleSwipe online 1 Right (ann_deck_again, bob_swiped))"

text \<open>Instead of swiping, Bob opens his dashboard after Ann's swipe and accepts her request.\<close>

definition bob_dashboard :: dashboard where
  "bob_dashboard = fst (open_dashboard online 2 ann_swiped)"

definition bob_accepted :: world where
  "bob_accepted = snd (handleAcceptRequest online 2 0 (bob_dashboard, ann_swiped))"




text \<open>
  Bob's dashboard still lists Ann's request as loaded before his swipe. After the swipe has
  matched it he presses reject on it, and then accept.
\<close>

definition bob_rejected :: world where
  "bob_rejected = snd (handleRejectRequest online 2 0 (bob_dashboard, bob_swiped))"

definition bob_reaccepted :: world where
  "bob_reaccepted = snd (handleAcceptRequest online 2 0 (bob_dashboard, bob_rejected))"

text \<open>
  Bob swipes right on Ann after her swipe; between the lookup and the update of his swipe
  the reject he pressed on his dashboard, which still lists her request, reaches the
  store.
\<close>

definition bob_rejects :: others where
  "bob_rejects w = snd (handleRejectRequest online 2 0 (bob_dashboard, w))"

definition bob_looked :: world where
  "bob_looked = snd (swipe_lookup online 2 (profiles bob_deck ! 0) Right nobody ann_swiped)"

definition bob_swiped_late :: world where
  "bob_swiped_late =
     snd (handleSwipe_among online 2 Right nobody bob_rejects nobody (bob_deck, ann_swiped))"


section \<open>Forgetting the kind of a swipe\<close>

text \<open>
  The store with the kind of every request erased, and the page with the direction of
  every card animation and direction toast erased: what is left is every status, every
  notification, every request sent, and whether a match was shown.
\<close>

definition erase_kind :: "swap_request \<Rightarrow> swap_request" where
  "erase_kind r = r\<lparr>swipe_type := Normal\<rparr>"

definition blind_kind :: "world \<Rightarrow> world" where
  "blind_kind w = w\<lparr>swap_requests := map erase_kind (swap_requests w)\<rparr>"

fun erase_dir :: "ui_event \<Rightarrow> ui_event" where
  "erase_dir (CardExit _) = CardExit Right"
| "erase_dir (SwipeToast _) = SwipeToast Right"
| "erase_dir e = e"

definition blind_dir :: "discover \<Rightarrow> discover" where
  "blind_dir d = d\<lparr>events := map erase_dir (events d)\<rparr>"

section \<open>Properties\<close>

lemmas store_defs = insert_swap_request_def select_single_pending_def update_status_def
  insert_notification_def set_status_def issue_def single_def pending_from_to_def from_to_def
  duplicate_key_def

lemmas swipe_defs = handleSwipe_def swipe_try_def match_notification_def Let_def

lemmas fetch_defs = fetchMatches_def fetchPendingRequests_def select_matched_def
  select_pending_to_def embed_from_user_def is_match_of_def is_pending_to_def to_person_def
  transform_match_def transform_request_def matches_failed_def pending_failed_def or_else_def

lemmas scene_defs = fresh_world_def ann_row_def bob_row_def deck0_def online_def

subsection \<open>The scenarios, evaluated\<close>

lemma ann_deck_eq:
  "ann_deck = \<lparr>profiles = [\<lparr>p_id = 2, p_name = ''Bob'', age = 25, p_location = ''Unknown'',
       canTeach = [''Chess''], wantToLearn = [''Piano''], bio = ''No bio available'',
       availability = ''Flexible'', badges = [''Active User'']\<rparr>],
     currentIndex = 0, isAnimating = False, dailySwipes = 15, loading = False, events = []\<rparr>"
  by (simp add: ann_deck_def fetchProfiles_def select_users_def transform_profile_def
      or_else_def issue_def scene_defs)

lemma bob_deck_eq:
  "bob_deck = \<lparr>profiles = [\<lparr>p_id = 1, p_name = ''Ann'', age = 25, p_location = ''Unknown'',
       canTeach = [''Piano''], wantToLearn = [''Chess''], bio = ''No bio available'',
       availability = ''Flexible'', badges = [''Active User'']\<rparr>],
     currentIndex = 0, isAnimating = False, dailySwipes = 15, loading = False, events = []\<rparr>"
  by (simp add: bob_deck_def fetchProfiles_def select_users_def transform_profile_def
      or_else_def issue_def scene_defs)

lemma ann_swiped_eq:
  "ann_swiped = \<lparr>users = [ann_row, bob_row], swap_requests =
       [\<lparr>sr_id = 0, created_at = 0, from_user_id = 1, to_user_id = 2, swipe_type = Normal,
         status = Pending\<rparr>],
     notifications = [], next_id = 1, clock = 0,
     calls = [InsertSwapRequest, SelectSwapRequests]\<rparr>"
  by (simp add: ann_swiped_def ann_deck_eq swipe_defs store_defs fresh_world_def online_def)

lemma bob_swiped_eq:
  "bob_swiped = \<lparr>users = [ann_row, bob_row], swap_requests =
       [\<lparr>sr_id = 0, created_at = 0, from_user_id = 1, to_user_id = 2, swipe_type = Normal,
         status = Matched\<rparr>,
        \<lparr>sr_id = 1, created_at = 0, from_user_id = 2, to_user_id = 1, swipe_type = Normal,
         status = Pending\<rparr>],
     notifications = [\<lparr>user_id = 2, n_type = ''match'', title = ''New Match!'',
                       message = ''You matched with Ann!''\<rparr>],
     next_id = 2, clock = 0,
     calls = [InsertSwapRequest, SelectSwapRequests, InsertSwapRequest, SelectSwapRequests,
              UpdateSwapRequests, InsertNotification]\<rparr>"
  by (simp add: bob_swiped_def bob_deck_eq ann_swiped_eq swipe_defs store_defs online_def)

lemma ann_deck_again_eq:
  "ann_deck_again = \<lparr>profiles = [\<lparr>p_id = 2, p_name = ''Bob'', age = 25,
       p_location = ''Unknown'', canTeach = [''Chess''], wantToLearn = [''Piano''],
       bio = ''No bio available'', availability = ''Flexible'', badges = [''Active User'']\<rparr>],
     currentIndex = 0, isAnimating = False, dailySwipes = 14, loading = False,
     events = [CardExit Right, SwipeToast Right, CardReset, CardReset,
               ToastSuccess ''New profiles loaded!'']\<rparr>"
  by (simp add: ann_deck_again_def resetStack_def ann_deck_eq swipe_defs store_defs
      fresh_world_def online_def)

lemma ann_reswiped_eq:
  "ann_reswiped = \<lparr>users = [ann_row, bob_row], swap_requests =
       [\<lparr>sr_id = 0, created_at = 0, from_user_id = 1, to_user_id = 2, swipe_type = Normal,
         status = Matched\<rparr>,
        \<lparr>sr_id = 1, created_at = 0, from_user_id = 2, to_user_id = 1, swipe_type = Normal,
         status = Matched\<rparr>],
     notifications = [\<lparr>user_id = 2, n_type = ''match'', title = ''New Match!'',
                       message = ''You matched with Ann!''\<rparr>,
                      \<lparr>user_id = 1, n_type = ''match'', title = ''New Match!'',
                       message = ''You matched with Bob!''\<rparr>],
     next_id = 2, clock = 0,
     calls = [InsertSwapRequest, SelectSwapRequests, InsertSwapRequest, SelectSwapRequests,
              UpdateSwapRequests, InsertNotification, InsertSwapRequest, SelectSwapRequests,
              UpdateSwapRequests, InsertNotification]\<rparr>"
  by (simp add: ann_reswiped_def ann_deck_again_eq bob_swiped_eq swipe_defs store_defs
      online_def)

lemma bob_dashboard_eq:
  "bob_dashboard = \<lparr>matches = [], pendingRequests =
       [\<lparr>pr_id = 0, fromUser = \<lparr>pu_id = 1, pu_name = ''Ann'', avatar = default_avatar,
                                 skills = [''Piano'']\<rparr>,
         swipeType = Normal, createdAt = 0\<rparr>],
     dash_loading = False, dash_events = []\<rparr>"
  by (simp add: bob_dashboard_def open_dashboard_def dashboard0_def ann_swiped_eq fetch_defs
      issue_def ann_row_def bob_row_def online_def)

lemma bob_accepted_eq:
  "bob_accepted = \<lparr>users = [ann_row, bob_row], swap_requests =
       [\<lparr>sr_id = 0, created_at = 0, from_user_id = 1, to_user_id = 2, swipe_type = Normal,
         status = Matched\<rparr>],
     notifications = [\<lparr>user_id = 1, n_type = ''match'', title = ''Match Accepted!'',
                       message = ''Your swap request was accepted!''\<rparr>],
     next_id = 1, clock = 0,
     calls = [InsertSwapRequest, SelectSwapRequests, UpdateSwapRequests, InsertNotification,
              SelectSwapRequests, SelectSwapRequests]\<rparr>"
  by (simp add: bob_accepted_def bob_dashboard_eq ann_swiped_eq handleAcceptRequest_def
      accept_try_def accept_notification_def fetch_defs store_defs ann_row_def bob_row_def
      online_def)

subsection \<open>Which rows a swipe can change\<close>

lemma fetchMatches_world: "snd (fetchMatches net user dw) = issue SelectSwapRequests (snd dw)"
  by (cases dw)
    (simp add: fetchMatches_def select_matched_def Let_def split: option.splits sum.splits)

lemma fetchPendingRequests_world:
  "snd (fetchPendingRequests net user dw) = issue SelectSwapRequests (snd dw)"
  by (cases dw)
    (simp add: fetchPendingRequests_def select_pending_to_def Let_def
      split: option.splits sum.splits)

lemma single_SomeD: "single xs = Some x \<Longrightarrow> xs = [x]"
  by (auto simp add: single_def split: list.splits)

lemma set_status_nth:
  "i < length rows \<Longrightarrow>
   set_status ids s rows ! i = (if sr_id (rows ! i) \<in> set ids then (rows ! i)\<lparr>status := s\<rparr> else rows ! i)"
  by (simp add: set_status_def)

lemma set_status_append: "set_status ids s (xs @ ys) = set_status ids s xs @ set_status ids s ys"
  by (simp add: set_status_def)

lemma length_set_status: "length (set_status ids s rows) = length rows"
  by (simp add: set_status_def)

lemma pending_found_old:
  assumes "wf_world w" and "i < length (swap_requests w)"
    and "status (swap_requests w ! i) \<noteq> Pending"
    and "pending_from_to f t (swap_requests w @ extra) = [m]"
    and "list_all (\<lambda>r. sr_id r = next_id w) extra"
  shows "sr_id (swap_requests w ! i) \<noteq> sr_id m"
proof
  assume eq: "sr_id (swap_requests w ! i) = sr_id m"
  have "m \<in> set (pending_from_to f t (swap_requests w @ extra))" using assms(4) by simp
  then have m: "m \<in> set (swap_requests w) \<or> m \<in> set extra" and p: "status m = Pending"
    by (auto simp add: pending_from_to_def)
  have ri: "swap_requests w ! i \<in> set (swap_requests w)" using assms(2) by simp
  from m show False
  proof
    assume "m \<in> set (swap_requests w)"
    with ri eq assms(1) have "swap_requests w ! i = m"
      by (auto simp add: wf_world_def distinct_map inj_on_def)
    with p assms(3) show False by simp
  next
    assume "m \<in> set extra"
    with assms(5) have "sr_id m = next_id w" by (auto simp add: list_all_iff)
    moreover from ri assms(1) have "sr_id (swap_requests w ! i) < next_id w"
      by (auto simp add: wf_world_def list_all_iff)
    ultimately show False using eq by simp
  qed
qed

lemma insert_rows:
  "\<exists>extra. list_all (\<lambda>r. sr_id r = next_id w) extra
     \<and> swap_requests (snd (insert_swap_request net f t k s w)) = swap_requests w @ extra"
proof (cases "net (length (calls w)) = None \<and> \<not> list_ex (from_to f t) (swap_requests w)")
  case True
  then have "swap_requests (snd (insert_swap_request net f t k s w)) = swap_requests w @
     [\<lparr>sr_id = next_id w, created_at = clock w, from_user_id = f, to_user_id = t,
       swipe_type = k, status = s\<rparr>]"
    by (simp add: insert_swap_request_def issue_def)
  then show ?thesis by auto
next
  case False
  then have "swap_requests (snd (insert_swap_request net f t k s w)) = swap_requests w @ []"
    by (auto simp add: insert_swap_request_def issue_def split: option.splits)
  then show ?thesis by (intro exI [of _ "[]"]) simp
qed

lemma select_rows [simp]:
  "swap_requests (snd (select_single_pending net f t w)) = swap_requests w"
  by (simp add: select_single_pending_def issue_def split: option.splits)

lemma select_found:
  "fst (select_single_pending net f t w) = Some m \<Longrightarrow> pending_from_to f t (swap_requests w) = [m]"
  by (auto simp add: select_single_pending_def split: option.splits dest: single_SomeD)

lemma update_rows:
  "swap_requests (snd (update_status net ids s w))
     = (if net (length (calls w)) = None then set_status ids s (swap_requests w)
        else swap_requests w)"
  by (simp add: update_status_def issue_def split: option.splits)

lemma notify_rows [simp]:
  "swap_requests (snd (insert_notification net n w)) = swap_requests w"
  by (simp add: insert_notification_def issue_def split: option.splits)

lemma swipe_try_rows:
  "\<exists>extra. list_all (\<lambda>r. sr_id r = next_id w) extra
     \<and> (swap_requests (snd (swipe_try net user p dir w)) = swap_requests w @ extra
        \<or> (\<exists>m. pending_from_to (p_id p) user (swap_requests w @ extra) = [m]
              \<and> swap_requests (snd (swipe_try net user p dir w))
                  = set_status [sr_id m] Matched (swap_requests w @ extra)))"
proof -
  define k where "k = (if dir = Up then Super else Normal)"
  define ins where "ins = insert_swap_request net user (p_id p) k Pending w"
  obtain extra where ex: "list_all (\<lambda>r. sr_id r = next_id w) extra"
    and rows1: "swap_requests (snd ins) = swap_requests w @ extra"
    unfolding ins_def using insert_rows by blast
  define sel where "sel = select_single_pending net (p_id p) user (snd ins)"
  have st: "swipe_try net user p dir w =
     (if (case fst ins of None \<Rightarrow> False | Some e \<Rightarrow> code e \<noteq> ''23505'')
      then ([ConsoleError ''Error handling swipe:''], snd ins)
      else (case fst sel of
              None \<Rightarrow> ([], snd sel)
            | Some mutualMatch \<Rightarrow>
                ([Confetti, MatchToast (p_name p)],
                 snd (insert_notification net (match_notification user p)
                   (snd (update_status net [sr_id mutualMatch] Matched (snd sel)))))))"
    by (simp add: swipe_try_def ins_def sel_def k_def split: prod.splits option.splits)
  show ?thesis
  proof (cases "fst sel")
    case None
    then have "swap_requests (snd (swipe_try net user p dir w)) = swap_requests w @ extra"
      by (simp add: st rows1 sel_def)
    with ex show ?thesis by blast
  next
    case (Some m)
    then have found: "pending_from_to (p_id p) user (swap_requests w @ extra) = [m]"
      using select_found [of net "p_id p" user "snd ins" m] by (simp add: sel_def rows1)
    have "swap_requests (snd (swipe_try net user p dir w)) = swap_requests w @ extra
        \<or> swap_requests (snd (swipe_try net user p dir w))
             = set_status [sr_id m] Matched (swap_requests w @ extra)"
      using Some by (simp add: st rows1 update_rows sel_def)
    with ex found show ?thesis by blast
  qed
qed

lemma handleSwipe_world:
  "snd (handleSwipe net user dir (d, w)) =
     (if isAnimating d \<or> length (profiles d) \<le> currentIndex d \<or> dir = Left \<or> dir = Down then w
      else snd (swipe_try net user (profiles d ! currentIndex d) dir w))"
  by (cases dir) (simp_all add: handleSwipe_def Let_def split: prod.splits)

lemma swipe_keeps_settled:
  assumes "wf_world w" and "i < length (swap_requests w)"
    and "status (swap_requests w ! i) \<noteq> Pending"
  shows "swap_requests (snd (handleSwipe net user dir (d, w))) ! i = swap_requests w ! i"
proof (cases "isAnimating d \<or> length (profiles d) \<le> currentIndex d \<or> dir = Left \<or> dir = Down")
  case True
  then show ?thesis by (simp add: handleSwipe_world)
next
  case False
  define p where "p = profiles d ! currentIndex d"
  from False have hw: "snd (handleSwipe net user dir (d, w)) = snd (swipe_try net user p dir w)"
    by (simp add: handleSwipe_world p_def)
  obtain extra where ex: "list_all (\<lambda>r. sr_id r = next_id w) extra"
    and alt: "swap_requests (snd (swipe_try net user p dir w)) = swap_requests w @ extra
        \<or> (\<exists>m. pending_from_to (p_id p) user (swap_requests w @ extra) = [m]
              \<and> swap_requests (snd (swipe_try net user p dir w))
                  = set_status [sr_id m] Matched (swap_requests w @ extra))"
    using swipe_try_rows by blast
  from alt show ?thesis
  proof
    assume "swap_requests (snd (swipe_try net user p dir w)) = swap_requests w @ extra"
    then show ?thesis using assms(2) by (simp add: hw nth_append)
  next
    assume "\<exists>m. pending_from_to (p_id p) user (swap_requests w @ extra) = [m]
              \<and> swap_requests (snd (swipe_try net user p dir w))
                  = set_status [sr_id m] Matched (swap_requests w @ extra)"
    then obtain m where m: "pending_from_to (p_id p) user (swap_requests w @ extra) = [m]"
      and rows: "swap_requests (snd (swipe_try net user p dir w))
                  = set_status [sr_id m] Matched (swap_requests w @ extra)"
      by blast
    have "sr_id (swap_requests w ! i) \<noteq> sr_id m"
      using pending_found_old [OF assms m ex] .
    then show ?thesis using assms(2) by (simp add: hw rows set_status_nth nth_append)
  qed
qed

subsection \<open>Accept and reject\<close>

lemma accept_try_world:
  "snd (snd (accept_try net requestId (dd, w))) =
     (case net (length (calls w)) of
        Some e \<Rightarrow> issue UpdateSwapRequests w
      | None \<Rightarrow>
          (case find (\<lambda>r. pr_id r = requestId) (pendingRequests dd) of
             None \<Rightarrow> (issue UpdateSwapRequests w)
                        \<lparr>swap_requests := set_status [requestId] Matched (swap_requests w)\<rparr>
           | Some request \<Rightarrow>
               snd (insert_notification net (accept_notification request)
                 ((issue UpdateSwapRequests w)
                    \<lparr>swap_requests := set_status [requestId] Matched (swap_requests w)\<rparr>))))"
  by (simp add: accept_try_def update_status_def Let_def split: option.splits)

lemma issue_rows [simp]: "swap_requests (issue c w) = swap_requests w"
  by (simp add: issue_def)

lemma issue_notifications [simp]: "notifications (issue c w) = notifications w"
  by (simp add: issue_def)

lemma accept_rows:
  "swap_requests (snd (handleAcceptRequest net u requestId (dd, w))) =
     (if net (length (calls w)) = None then set_status [requestId] Matched (swap_requests w)
      else swap_requests w)"
proof -
  have "swap_requests (snd (handleAcceptRequest net u requestId (dd, w)))
          = swap_requests (snd (snd (accept_try net requestId (dd, w))))"
    by (simp add: handleAcceptRequest_def fetchMatches_world fetchPendingRequests_world
        split: prod.splits bool.splits)
  then show ?thesis
    by (simp add: accept_try_world split: option.splits)
qed

lemma reject_world:
  "snd (handleRejectRequest net u requestId (dd, w)) =
     (case net (length (calls w)) of
        Some e \<Rightarrow> issue UpdateSwapRequests w
      | None \<Rightarrow> issue SelectSwapRequests ((issue UpdateSwapRequests w)
                   \<lparr>swap_requests := set_status [requestId] Rejected (swap_requests w)\<rparr>))"
  by (simp add: handleRejectRequest_def update_status_def fetchPendingRequests_world
      split: option.splits)

lemma reject_rows:
  "swap_requests (snd (handleRejectRequest net u requestId (dd, w))) =
     (if net (length (calls w)) = None then set_status [requestId] Rejected (swap_requests w)
      else swap_requests w)"
  by (simp add: reject_world split: option.splits)

lemma wf_bob_swiped: "wf_world bob_swiped"
  by (simp add: wf_world_def bob_swiped_eq)

lemma bob_rejected_rows:
  "swap_requests bob_rejected =
       [\<lparr>sr_id = 0, created_at = 0, from_user_id = 1, to_user_id = 2, swipe_type = Normal,
         status = Rejected\<rparr>,
        \<lparr>sr_id = 1, created_at = 0, from_user_id = 2, to_user_id = 1, swipe_type = Normal,
         status = Pending\<rparr>]"
  by (simp add: bob_rejected_def reject_rows bob_swiped_eq online_def set_status_def)

lemma bob_reaccepted_rows:
  "swap_requests bob_reaccepted =
       [\<lparr>sr_id = 0, created_at = 0, from_user_id = 1, to_user_id = 2, swipe_type = Normal,
         status = Matched\<rparr>,
        \<lparr>sr_id = 1, created_at = 0, from_user_id = 2, to_user_id = 1, swipe_type = Normal,
         status = Pending\<rparr>]"
  by (simp add: bob_reaccepted_def accept_rows bob_rejected_rows online_def set_status_def)

lemma next_id_bob_rejected: "next_id bob_rejected = 2"
  by (simp add: bob_rejected_def reject_world bob_swiped_eq online_def issue_def)

subsection \<open>A second submission of the same signal\<close>

lemma handleSwipe_world_online_duplicate:
  assumes "\<not> isAnimating d" and "currentIndex d < length (profiles d)"
    and "dir = Right \<or> dir = Up"
    and "p = profiles d ! currentIndex d"
    and "list_ex (from_to user (p_id p)) (swap_requests w)"
  shows "snd (handleSwipe online user dir (d, w)) =
       (case single (pending_from_to (p_id p) user (swap_requests w)) of
          None \<Rightarrow> w\<lparr>calls := calls w @ [InsertSwapRequest, SelectSwapRequests]\<rparr>
        | Some m \<Rightarrow>
            w\<lparr>swap_requests := set_status [sr_id m] Matched (swap_requests w),
              notifications := notifications w @ [match_notification user p],
              calls := calls w @ [InsertSwapRequest, SelectSwapRequests, UpdateSwapRequests,
                                  InsertNotification]\<rparr>)"
proof -
  have ins: "insert_swap_request online user (p_id p) k Pending w
               = (Some duplicate_key, issue InsertSwapRequest w)" for k
    using assms(5) by (simp add: insert_swap_request_def online_def)
  have "snd (handleSwipe online user dir (d, w)) = snd (swipe_try online user p dir w)"
    using assms(1-4) by (auto simp add: handleSwipe_world)
  also have "\<dots> = (case single (pending_from_to (p_id p) user (swap_requests w)) of
          None \<Rightarrow> w\<lparr>calls := calls w @ [InsertSwapRequest, SelectSwapRequests]\<rparr>
        | Some m \<Rightarrow>
            w\<lparr>swap_requests := set_status [sr_id m] Matched (swap_requests w),
              notifications := notifications w @ [match_notification user p],
              calls := calls w @ [InsertSwapRequest, SelectSwapRequests, UpdateSwapRequests,
                                  InsertNotification]\<rparr>)"
    unfolding swipe_try_def ins
    by (simp add: duplicate_key_def select_single_pending_def update_status_def
        insert_notification_def issue_def online_def split: option.splits)
  finally show ?thesis .
qed

subsection \<open>Accept and reject with the store available\<close>

lemma accept_world_online:
  "snd (handleAcceptRequest online u requestId (dd, w)) =
     (case find (\<lambda>r. pr_id r = requestId) (pendingRequests dd) of
        None \<Rightarrow>
          w\<lparr>swap_requests := set_status [requestId] Matched (swap_requests w),
            calls := calls w @ [UpdateSwapRequests, SelectSwapRequests, SelectSwapRequests]\<rparr>
      | Some request \<Rightarrow>
          w\<lparr>swap_requests := set_status [requestId] Matched (swap_requests w),
            notifications := notifications w @ [accept_notification request],
            calls := calls w @ [UpdateSwapRequests, InsertNotification, SelectSwapRequests,
                                SelectSwapRequests]\<rparr>)"
proof -
  have "snd (handleAcceptRequest online u requestId (dd, w))
          = issue SelectSwapRequests (issue SelectSwapRequests
              (snd (snd (accept_try online requestId (dd, w)))))"
    by (simp add: handleAcceptRequest_def fetchMatches_world fetchPendingRequests_world
        accept_try_def update_status_def online_def split: prod.splits bool.splits)
  then show ?thesis
    by (simp add: accept_try_world insert_notification_def issue_def online_def
        split: option.splits)
qed

lemma reject_world_online:
  "snd (handleRejectRequest online u requestId (dd, w)) =
       w\<lparr>swap_requests := set_status [requestId] Rejected (swap_requests w),
         calls := calls w @ [UpdateSwapRequests, SelectSwapRequests]\<rparr>"
  by (simp add: reject_world online_def issue_def)

subsection \<open>The list of matches\<close>

lemma those_map_Some:
  "(\<And>x. x \<in> set xs \<Longrightarrow> f x = Some (g x)) \<Longrightarrow> those (map f xs) = Some (map g xs)"
  by (induction xs) simp_all

lemma find_user_Some:
  "list_ex (\<lambda>u. u_id u = i) us \<Longrightarrow> \<exists>u. find (\<lambda>u. u_id u = i) us = Some u"
  by (induction us) auto

lemma fetchMatches_entries:
  assumes "net (length (calls w)) = None"
    and "list_all (\<lambda>r. list_ex (\<lambda>u. u_id u = from_user_id r) (users w)) (swap_requests w)"
  shows "map m_id (matches (fst (fetchMatches net user (d, w))))
           = map sr_id (filter (is_match_of user) (swap_requests w))"
proof -
  let ?rows = "filter (is_match_of user) (swap_requests w)"
  let ?g = "\<lambda>r. \<lparr>m_id = sr_id r,
                  m_user = to_person (the (find (\<lambda>u. u_id u = from_user_id r) (users w))),
                  matchedAt = created_at r, m_status = ''matched''\<rparr>"
  have "transform_match (embed_from_user (users w) r) = Some (?g r)" if "r \<in> set ?rows" for r
  proof -
    from that assms(2) have "list_ex (\<lambda>u. u_id u = from_user_id r) (users w)"
      by (simp add: list_all_iff)
    then obtain u where "find (\<lambda>u. u_id u = from_user_id r) (users w) = Some u"
      using find_user_Some by blast
    then show ?thesis by (simp add: transform_match_def embed_from_user_def)
  qed
  then have "those (map (transform_match \<circ> embed_from_user (users w)) ?rows) = Some (map ?g ?rows)"
    by (intro those_map_Some) simp
  then have "matches (fst (fetchMatches net user (d, w))) = map ?g ?rows"
    using assms(1) by (simp add: fetchMatches_def select_matched_def)
  then show ?thesis by (simp add: comp_def)
qed

subsection \<open>The requests a swipe sends\<close>

lemma swipe_try_unfold:
  "swipe_try net user p dir w =
     (let ins = insert_swap_request net user (p_id p) (if dir = Up then Super else Normal)
                  Pending w;
          sel = select_single_pending net (p_id p) user (snd ins)
      in if (case fst ins of None \<Rightarrow> False | Some e \<Rightarrow> code e \<noteq> ''23505'')
         then ([ConsoleError ''Error handling swipe:''], snd ins)
         else (case fst sel of
                 None \<Rightarrow> ([], snd sel)
               | Some mutualMatch \<Rightarrow>
                   ([Confetti, MatchToast (p_name p)],
                    snd (insert_notification net (match_notification user p)
                      (snd (update_status net [sr_id mutualMatch] Matched (snd sel)))))))"
  by (simp add: swipe_try_def Let_def split: prod.splits option.splits)

lemma insert_calls [simp]:
  "calls (snd (insert_swap_request net f t k s w)) = calls w @ [InsertSwapRequest]"
  by (simp add: insert_swap_request_def issue_def split: option.splits)

lemma select_calls [simp]:
  "calls (snd (select_single_pending net f t w)) = calls w @ [SelectSwapRequests]"
  by (simp add: select_single_pending_def issue_def split: option.splits)

lemma update_calls [simp]:
  "calls (snd (update_status net ids s w)) = calls w @ [UpdateSwapRequests]"
  by (simp add: update_status_def issue_def split: option.splits)

lemma notify_calls [simp]:
  "calls (snd (insert_notification net n w)) = calls w @ [InsertNotification]"
  by (simp add: insert_notification_def issue_def split: option.splits)

lemma swipe_try_first_call:
  "take (Suc (length (calls w))) (calls (snd (swipe_try net user p dir w)))
     = calls w @ [InsertSwapRequest]"
  by (simp add: swipe_try_unfold Let_def split: option.splits)

lemma handleSwipe_first_call:
  assumes "\<not> isAnimating d" and "currentIndex d < length (profiles d)"
    and "dir = Right \<or> dir = Up"
  shows "take (Suc (length (calls w))) (calls (snd (handleSwipe net user dir (d, w))))
           = calls w @ [InsertSwapRequest]"
  using assms by (auto simp add: handleSwipe_world swipe_try_first_call)


subsection \<open>Failed requests\<close>



lemma handleSwipe_ui:
  assumes "\<not> isAnimating d" and "currentIndex d < length (profiles d)"
    and "dir = Right \<or> dir = Up"
  shows "fst (handleSwipe net user dir (d, w)) =
     d\<lparr>dailySwipes := max 0 (dailySwipes d - 1),
       events := events d @ CardExit dir
                   # fst (swipe_try net user (profiles d ! currentIndex d) dir w)
                   @ [SwipeToast dir, CardReset],
       currentIndex := currentIndex d + 1\<rparr>"
  using assms by (auto simp add: handleSwipe_def Let_def split: prod.splits)




subsection \<open>The kind of a swipe is never read\<close>

lemma blind_kind_eq_iff:
  "blind_kind w1 = blind_kind w2 \<longleftrightarrow>
     users w1 = users w2 \<and> map erase_kind (swap_requests w1) = map erase_kind (swap_requests w2)
     \<and> notifications w1 = notifications w2 \<and> next_id w1 = next_id w2 \<and> clock w1 = clock w2
     \<and> calls w1 = calls w2"
  by (cases w1; cases w2) (auto simp add: blind_kind_def)

lemma filter_erase_kind:
  assumes "\<And>r. P (erase_kind r) = P r"
  shows "map erase_kind (filter P rows) = filter P (map erase_kind rows)"
  using assms by (induction rows) simp_all

lemma from_to_erase [simp]: "from_to f t (erase_kind r) = from_to f t r"
  by (simp add: from_to_def erase_kind_def)

lemma status_erase [simp]: "status (erase_kind r) = status r"
  by (simp add: erase_kind_def)

lemma sr_id_erase [simp]: "sr_id (erase_kind r) = sr_id r"
  by (simp add: erase_kind_def)

lemma list_ex_erase:
  assumes "map erase_kind rows1 = map erase_kind rows2"
  shows "list_ex (from_to f t) rows1 = list_ex (from_to f t) rows2"
proof -
  have "list_ex (from_to f t) rows = list_ex (from_to f t) (map erase_kind rows)" for rows
    by (induction rows) simp_all
  with assms show ?thesis by metis
qed

lemma pending_erase:
  assumes "map erase_kind rows1 = map erase_kind rows2"
  shows "map erase_kind (pending_from_to f t rows1) = map erase_kind (pending_from_to f t rows2)"
  using assms by (simp add: pending_from_to_def filter_erase_kind)

lemma single_erase:
  assumes "map erase_kind xs = map erase_kind ys"
  shows "map_option sr_id (single xs) = map_option sr_id (single ys)"
proof -
  have "map_option sr_id (single xs) = map_option sr_id (single (map erase_kind xs))" for xs
    by (cases xs rule: list.exhaust; simp add: single_def split: list.splits)
  with assms show ?thesis by metis
qed

lemma set_status_erase:
  "map erase_kind (set_status ids s rows) = set_status ids s (map erase_kind rows)"
  by (simp add: set_status_def erase_kind_def comp_def if_distrib cong: if_cong)

lemma insert_blind:
  assumes "blind_kind w1 = blind_kind w2"
  shows "fst (insert_swap_request net f t k1 s w1) = fst (insert_swap_request net f t k2 s w2)
       \<and> blind_kind (snd (insert_swap_request net f t k1 s w1))
           = blind_kind (snd (insert_swap_request net f t k2 s w2))"
  using assms list_ex_erase [of "swap_requests w1" "swap_requests w2" f t]
  by (auto simp add: blind_kind_eq_iff insert_swap_request_def issue_def erase_kind_def
      split: option.splits)

lemma select_blind:
  assumes "blind_kind w1 = blind_kind w2"
  shows "map_option sr_id (fst (select_single_pending net f t w1))
           = map_option sr_id (fst (select_single_pending net f t w2))
       \<and> blind_kind (snd (select_single_pending net f t w1))
           = blind_kind (snd (select_single_pending net f t w2))"
  using assms
    single_erase [OF pending_erase [of "swap_requests w1" "swap_requests w2" f t]]
  by (auto simp add: blind_kind_eq_iff select_single_pending_def issue_def
      split: option.splits)

lemma update_blind:
  assumes "blind_kind w1 = blind_kind w2"
  shows "blind_kind (snd (update_status net ids s w1))
           = blind_kind (snd (update_status net ids s w2))"
  using assms
  by (auto simp add: blind_kind_eq_iff update_status_def issue_def set_status_erase
      split: option.splits)

lemma notify_blind:
  assumes "blind_kind w1 = blind_kind w2"
  shows "blind_kind (snd (insert_notification net n w1))
           = blind_kind (snd (insert_notification net n w2))"
  using assms
  by (auto simp add: blind_kind_eq_iff insert_notification_def issue_def
      split: option.splits)

lemma swipe_try_blind:
  assumes "blind_kind w1 = blind_kind w2"
  shows "fst (swipe_try net user p dir1 w1) = fst (swipe_try net user p dir2 w2)
       \<and> blind_kind (snd (swipe_try net user p dir1 w1))
           = blind_kind (snd (swipe_try net user p dir2 w2))"
proof -
  define i1 where "i1 = insert_swap_request net user (p_id p)
                          (if dir1 = Up then Super else Normal) Pending w1"
  define i2 where "i2 = insert_swap_request net user (p_id p)
                          (if dir2 = Up then Super else Normal) Pending w2"
  have i: "fst i1 = fst i2" "blind_kind (snd i1) = blind_kind (snd i2)"
    unfolding i1_def i2_def using insert_blind [OF assms] by blast+
  define s1 where "s1 = select_single_pending net (p_id p) user (snd i1)"
  define s2 where "s2 = select_single_pending net (p_id p) user (snd i2)"
  have s: "map_option sr_id (fst s1) = map_option sr_id (fst s2)"
    "blind_kind (snd s1) = blind_kind (snd s2)"
    unfolding s1_def s2_def using select_blind [OF i(2)] by blast+
  have u: "blind_kind (snd (insert_notification net n (snd (update_status net ids st (snd s1)))))
         = blind_kind (snd (insert_notification net n (snd (update_status net ids st (snd s2)))))"
    for n ids st
    by (intro notify_blind update_blind s(2))
  have t1: "swipe_try net user p dir1 w1 =
      (if (case fst i1 of None \<Rightarrow> False | Some e \<Rightarrow> code e \<noteq> ''23505'')
         then ([ConsoleError ''Error handling swipe:''], snd i1)
         else (case fst s1 of
                 None \<Rightarrow> ([], snd s1)
               | Some mutualMatch \<Rightarrow>
                   ([Confetti, MatchToast (p_name p)],
                    snd (insert_notification net (match_notification user p)
                      (snd (update_status net [sr_id mutualMatch] Matched (snd s1)))))))"
    unfolding s1_def i1_def swipe_try_unfold Let_def ..
  have t2: "swipe_try net user p dir2 w2 =
      (if (case fst i2 of None \<Rightarrow> False | Some e \<Rightarrow> code e \<noteq> ''23505'')
         then ([ConsoleError ''Error handling swipe:''], snd i2)
         else (case fst s2 of
                 None \<Rightarrow> ([], snd s2)
               | Some mutualMatch \<Rightarrow>
                   ([Confetti, MatchToast (p_name p)],
                    snd (insert_notification net (match_notification user p)
                      (snd (update_status net [sr_id mutualMatch] Matched (snd s2)))))))"
    unfolding s2_def i2_def swipe_try_unfold Let_def ..
  show ?thesis
  proof (cases "fst s1")
    case None
    with s(1) have "fst s2 = None" by simp
    with None i s(2) show ?thesis by (simp add: t1 t2)
  next
    case (Some m1)
    with s(1) obtain m2 where m2: "fst s2 = Some m2" "sr_id m2 = sr_id m1" by (cases "fst s2") auto
    with Some i u [of "match_notification user p" "[sr_id m1]" Matched] show ?thesis
      by (simp add: t1 t2)
  qed
qed

lemma map_status_erase:
  assumes "map erase_kind rows1 = map erase_kind rows2"
  shows "map status rows1 = map status rows2"
proof -
  have "map status rows = map status (map erase_kind rows)" for rows
    by simp
  with assms show ?thesis by metis
qed

lemma handleSwipe_blind:
  assumes "blind_kind w1 = blind_kind w2"
    and "dir1 = Right \<or> dir1 = Up" and "dir2 = Right \<or> dir2 = Up"
  shows "blind_kind (snd (handleSwipe net user dir1 (d, w1)))
           = blind_kind (snd (handleSwipe net user dir2 (d, w2)))
       \<and> blind_dir (fst (handleSwipe net user dir1 (d, w1)))
           = blind_dir (fst (handleSwipe net user dir2 (d, w2)))"
proof (cases "isAnimating d \<or> length (profiles d) \<le> currentIndex d")
  case True
  then show ?thesis using assms(1) by (auto simp add: handleSwipe_def)
next
  case False
  then have g: "\<not> isAnimating d" "currentIndex d < length (profiles d)" by auto
  have w: "snd (handleSwipe net user dir (d, w))
             = snd (swipe_try net user (profiles d ! currentIndex d) dir w)"
    if "dir = Right \<or> dir = Up" for dir w
    using g that by (auto simp add: handleSwipe_world)
  show ?thesis
    using swipe_try_blind [OF assms(1), of net user "profiles d ! currentIndex d" dir1 dir2]
    by (simp add: w assms(2,3) handleSwipe_ui [OF g assms(2)] handleSwipe_ui [OF g assms(3)]
        blind_dir_def)
qed

subsection \<open>Well-formedness is kept by every handler\<close>

lemma wf_fresh_world: "wf_world fresh_world"
  by (simp add: wf_world_def fresh_world_def)

lemma map_sr_id_set_status [simp]: "map sr_id (set_status ids s rows) = map sr_id rows"
  by (simp add: set_status_def comp_def if_distrib cong: if_cong)

lemma wf_issue [simp]: "wf_world (issue c w) = wf_world w"
  by (simp add: wf_world_def issue_def)

lemma wf_insert:
  "wf_world w \<Longrightarrow> wf_world (snd (insert_swap_request net f t k s w))"
  by (auto simp add: insert_swap_request_def wf_world_def issue_def list_all_iff
      split: option.splits)

lemma wf_select:
  "wf_world w \<Longrightarrow> wf_world (snd (select_single_pending net f t w))"
  by (simp add: select_single_pending_def split: option.splits)

lemma wf_update:
  "wf_world w \<Longrightarrow> wf_world (snd (update_status net ids s w))"
proof -
  have "list_all (\<lambda>r. sr_id r < n) (set_status ids s rows) = list_all (\<lambda>r. sr_id r < n) rows"
    for n rows
    by (induction rows) (simp_all add: set_status_def)
  then show "wf_world w \<Longrightarrow> wf_world (snd (update_status net ids s w))"
    by (simp add: update_status_def wf_world_def issue_def split: option.splits)
qed

lemma wf_notify:
  "wf_world w \<Longrightarrow> wf_world (snd (insert_notification net n w))"
  by (simp add: insert_notification_def wf_world_def issue_def split: option.splits)

lemma wf_handleSwipe:
  assumes "wf_world w"
  shows "wf_world (snd (handleSwipe net user dir (d, w)))"
proof -
  have "wf_world (snd (swipe_try net user p dir w))" for p
    by (simp add: swipe_try_unfold Let_def assms wf_insert wf_select wf_update wf_notify
        split: option.splits)
  with assms show ?thesis by (simp add: handleSwipe_world)
qed

lemma wf_handleAcceptRequest:
  assumes "wf_world w"
  shows "wf_world (snd (handleAcceptRequest net u requestId (dd, w)))"
proof -
  have "wf_world (snd (snd (accept_try net requestId (dd, w))))"
    using wf_update [OF assms, of net "[requestId]" Matched]
    by (auto simp add: accept_try_def Let_def wf_notify split: prod.splits option.splits)
  then show ?thesis
    by (auto simp add: handleAcceptRequest_def fetchMatches_world fetchPendingRequests_world
        split: prod.splits bool.splits)
qed

lemma wf_handleRejectRequest:
  assumes "wf_world w"
  shows "wf_world (snd (handleRejectRequest net u requestId (dd, w)))"
  using wf_update [OF assms, of net "[requestId]" Rejected]
  by (auto simp add: handleRejectRequest_def fetchPendingRequests_world
      split: prod.splits option.splits)

subsection \<open>A swipe among other clients\<close>

lemma swipe_try_among_nobody:
  "swipe_try_among net user p dir nobody nobody nobody w = swipe_try net user p dir w"
  by (simp add: swipe_try_among_def swipe_lookup_def swipe_commit_def swipe_try_def nobody_def
      split: prod.splits option.splits)

lemma handleSwipe_among_nobody:
  "handleSwipe_among net user dir nobody nobody nobody dw = handleSwipe net user dir dw"
  by (cases dw) (simp add: handleSwipe_among_def handleSwipe_def swipe_try_among_nobody)

lemma handleSwipe_among_world:
  assumes "\<not> isAnimating d" and "currentIndex d < length (profiles d)"
    and "dir = Right \<or> dir = Up"
  shows "snd (handleSwipe_among net user dir gap1 gap2 gap3 (d, w))
           = snd (swipe_try_among net user (profiles d ! currentIndex d) dir gap1 gap2 gap3 w)"
  using assms by (auto simp add: handleSwipe_among_def Let_def split: prod.splits)

lemma swipe_lookup_found:
  assumes "swipe_lookup net user p dir gap1 w = (Inr (Some m), w2)"
  shows "status m = Pending \<and> from_to (p_id p) user m"
proof -
  from assms obtain w1 where
    "select_single_pending net (p_id p) user w1 = (Some m, w2)"
    by (auto simp add: swipe_lookup_def split: prod.splits option.splits if_splits)
  then have "pending_from_to (p_id p) user (swap_requests w1) = [m]"
    using select_found [of net "p_id p" user w1 m] by simp
  then have "m \<in> set (pending_from_to (p_id p) user (swap_requests w1))" by simp
  then show ?thesis by (simp add: pending_from_to_def)
qed

lemma swipe_among_overwrites:
  assumes "swipe_lookup net user p dir gap1 w = (Inr (Some m), w2)"
    and "net (length (calls (gap2 w2))) = None"
  shows "swap_requests (snd (swipe_try_among net user p dir gap1 gap2 nobody w))
           = set_status [sr_id m] Matched (swap_requests (gap2 w2))"
  using assms
  by (simp add: swipe_try_among_def swipe_commit_def update_status_def nobody_def
      split: prod.splits)

lemma online_None: "online n = None"
  by (simp add: online_def)

lemma bob_looked_eq:
  "bob_looked =
      \<lparr>users = [ann_row, bob_row], swap_requests =
         [\<lparr>sr_id = 0, created_at = 0, from_user_id = 1, to_user_id = 2, swipe_type = Normal,
           status = Pending\<rparr>,
          \<lparr>sr_id = 1, created_at = 0, from_user_id = 2, to_user_id = 1, swipe_type = Normal,
           status = Pending\<rparr>],
       notifications = [], next_id = 2, clock = 0,
       calls = [InsertSwapRequest, SelectSwapRequests, InsertSwapRequest,
                SelectSwapRequests]\<rparr>"
  by (simp add: bob_looked_def swipe_lookup_def nobody_def bob_deck_eq ann_swiped_eq store_defs
      online_def)

lemma bob_lookup_eq:
  "swipe_lookup online 2 (profiles bob_deck ! 0) Right nobody ann_swiped =
     (Inr (Some \<lparr>sr_id = 0, created_at = 0, from_user_id = 1, to_user_id = 2,
                  swipe_type = Normal, status = Pending\<rparr>), bob_looked)"
proof -
  have "fst (swipe_lookup online 2 (profiles bob_deck ! 0) Right nobody ann_swiped) =
     Inr (Some \<lparr>sr_id = 0, created_at = 0, from_user_id = 1, to_user_id = 2,
                 swipe_type = Normal, status = Pending\<rparr>)"
    by (simp add: swipe_lookup_def nobody_def bob_deck_eq ann_swiped_eq store_defs online_def)
  then show ?thesis
    by (simp add: bob_looked_def prod_eq_iff)
qed

lemma bob_rejects_looked_rows:
  "swap_requests (bob_rejects bob_looked) =
         [\<lparr>sr_id = 0, created_at = 0, from_user_id = 1, to_user_id = 2, swipe_type = Normal,
           status = Rejected\<rparr>,
          \<lparr>sr_id = 1, created_at = 0, from_user_id = 2, to_user_id = 1, swipe_type = Normal,
           status = Pending\<rparr>]"
  by (simp add: bob_rejects_def bob_looked_eq reject_rows online_None set_status_def)

lemma bob_swiped_late_rows:
  "swap_requests bob_swiped_late =
         [\<lparr>sr_id = 0, created_at = 0, from_user_id = 1, to_user_id = 2, swipe_type = Normal,
           status = Matched\<rparr>,
          \<lparr>sr_id = 1, created_at = 0, from_user_id = 2, to_user_id = 1, swipe_type = Normal,
           status = Pending\<rparr>]"
proof -
  have g: "\<not> isAnimating bob_deck" "currentIndex bob_deck < length (profiles bob_deck)"
    by (simp_all add: bob_deck_eq)
  have p: "profiles bob_deck ! currentIndex bob_deck = profiles bob_deck ! 0"
    by (simp add: bob_deck_eq)
  have "swap_requests bob_swiped_late
          = swap_requests (snd (swipe_try_among online 2 (profiles bob_deck ! 0) Right nobody
              bob_rejects nobody ann_swiped))"
    using handleSwipe_among_world [OF g, of Right online 2 nobody bob_rejects nobody ann_swiped]
    by (simp add: bob_swiped_late_def p)
  also have "\<dots> = set_status [0] Matched (swap_requests (bob_rejects bob_looked))"
    using swipe_among_overwrites [OF bob_lookup_eq, of bob_rejects] by (simp add: online_None)
  finally show ?thesis by (simp add: bob_rejects_looked_rows set_status_def)
qed

subsection \<open>The statements of the specification\<close>

text \<open>
  C1, as specified: a new signal that finds its reverse signal pending moves the reverse
  signal and then itself from pending to matched, so that both directed records of the
  pair end \<open>Matched\<close> and never only one of them. The page does otherwise, against its
  own comment (\<^verbatim>\<open>Update both requests to matched\<close>): after Ann has swiped on Bob and
  Bob swipes on Ann, the lookup finds Ann's pending request and the update is sent for
  that one row; Ann's request becomes \<open>Matched\<close>, Bob's new request keeps the status
  \<open>Pending\<close> it was inserted with.
\<close>

theorem C1_mutual_swipe_half_matched:
  "map signal (swap_requests ann_swiped) = [(1, 2, Pending)]
   \<and> map signal (swap_requests bob_swiped) = [(1, 2, Matched), (2, 1, Pending)]"
  by (simp add: ann_swiped_eq bob_swiped_eq signal_def)

text \<open>
  C2, as specified: every match commit produces two notifications, one per participant.
  Refuted: Bob's swipe that completes the match leaves exactly one notification, for Bob
  himself, and Bob's accepting Ann's request leaves exactly one, for Ann.
\<close>

theorem C2_counterexample:
  "notifications ann_swiped = [] \<and> map user_id (notifications bob_swiped) = [2]
   \<and> map user_id (notifications bob_accepted) = [1]"
  by (simp add: ann_swiped_eq bob_swiped_eq bob_accepted_eq)

text \<open>
  C2, amended: a match commit creates exactly one notification. On the swipe path
  (the reverse request is found pending) it is for the swiping user and names the swiped
  profile; on the accept path (the request is in the loaded list of pending requests) it
  is for the sender of the request.
\<close>

theorem C2_one_notification:
  assumes "\<not> isAnimating d" and "currentIndex d < length (profiles d)"
    and "dir = Right \<or> dir = Up"
    and "p = profiles d ! currentIndex d" and "user \<noteq> p_id p"
    and "pending_from_to (p_id p) user (swap_requests w) = [m]"
    and "find (\<lambda>r. pr_id r = requestId) (pendingRequests dd) = Some request"
  shows "notifications (snd (handleSwipe online user dir (d, w)))
           = notifications w @ [match_notification user p]
       \<and> notifications (snd (handleAcceptRequest online u requestId (dd, w)))
           = notifications w @ [accept_notification request]"
proof
  have "pending_from_to (p_id p) user (swap_requests w @ [r]) = [m]"
    if "from_user_id r = user" for r
    using assms(5,6) that by (auto simp add: pending_from_to_def from_to_def)
  then show "notifications (snd (handleSwipe online user dir (d, w)))
           = notifications w @ [match_notification user p]"
    using assms(1-6)
    by (auto simp add: handleSwipe_def swipe_try_def Let_def insert_swap_request_def
        select_single_pending_def update_status_def insert_notification_def issue_def
        single_def online_def duplicate_key_def split: prod.splits option.splits)
next
  show "notifications (snd (handleAcceptRequest online u requestId (dd, w)))
           = notifications w @ [accept_notification request]"
    using assms(7)
    by (simp add: handleAcceptRequest_def accept_try_def update_status_def
        insert_notification_def issue_def online_def fetchMatches_world
        fetchPendingRequests_world Let_def)
qed

theorem C2_one_notification_witness:
  "notifications bob_swiped
     = notifications ann_swiped @ [match_notification 2 (profiles bob_deck ! 0)]
   \<and> notifications bob_accepted
     = notifications ann_swiped @ [accept_notification (pendingRequests bob_dashboard ! 0)]"
  using C2_one_notification [of bob_deck Right "profiles bob_deck ! 0" 2 ann_swiped
      "swap_requests ann_swiped ! 0" 0 bob_dashboard "pendingRequests bob_dashboard ! 0" 2]
  by (simp add: bob_swiped_def bob_accepted_def bob_deck_eq ann_swiped_eq bob_dashboard_eq
      pending_from_to_def from_to_def)

text \<open>
  C3, as specified: the status update applies only from the expected status, so no
  operation (swipe reconciliation, accept or reject) changes a record that is
  \<open>Matched\<close> or \<open>Rejected\<close>. Refuted for all three. Request 0 is \<open>Matched\<close> after
  Bob's swipe, \<open>Rejected\<close> after his reject and \<open>Matched\<close> again after his accept.
  And when his reject reaches the store between the lookup and the update of his swipe,
  the lookup has found request 0 pending, the reject makes it \<open>Rejected\<close>, and the
  update of the swipe makes it \<open>Matched\<close>.
\<close>

theorem C3_counterexample:
  "map signal (swap_requests bob_swiped) = [(1, 2, Matched), (2, 1, Pending)]
   \<and> map signal (swap_requests bob_rejected) = [(1, 2, Rejected), (2, 1, Pending)]
   \<and> map signal (swap_requests bob_reaccepted) = [(1, 2, Matched), (2, 1, Pending)]
   \<and> map sr_id (swap_requests bob_swiped) = [0, 1]
   \<and> map sr_id (swap_requests bob_rejected) = [0, 1]
   \<and> map sr_id (swap_requests bob_reaccepted) = [0, 1]
   \<and> map signal (swap_requests bob_looked) = [(1, 2, Pending), (2, 1, Pending)]
   \<and> map signal (swap_requests (bob_rejects bob_looked)) = [(1, 2, Rejected), (2, 1, Pending)]
   \<and> map signal (swap_requests bob_swiped_late) = [(1, 2, Matched), (2, 1, Pending)]"
proof -
  have "map signal (swap_requests bob_looked) = [(1, 2, Pending), (2, 1, Pending)]"
    by (simp add: bob_looked_eq signal_def)
  then show ?thesis
    by (simp add: bob_swiped_eq bob_rejected_rows bob_reaccepted_rows
        bob_rejects_looked_rows bob_swiped_late_rows signal_def)
qed

text \<open>
  C3, amended: no status update is conditional; each is an update by row identifier
  without a status filter. Accept and reject, when the update reaches the store, set the
  identified record to \<open>Matched\<close> and to \<open>Rejected\<close> whatever its status was. A swipe
  whose lookup has returned a request (found pending then) sets every row with that
  identifier to \<open>Matched\<close> when its update reaches the store, whatever other clients
  have made of the row since the lookup. Only a swipe that runs with nobody else writing
  between its requests, on a well-formed table, leaves every record that is not
  \<open>Pending\<close> as it is.
\<close>

theorem C3_updates_unconditional:
  assumes "wf_world s" and "i < length (swap_requests s)"
    and "\<not> isAnimating d" and "currentIndex d < length (profiles d)"
    and "dir = Right \<or> dir = Up"
    and "swipe_lookup net user (profiles d ! currentIndex d) dir gap1 w = (Inr (Some m), w2)"
    and "net (length (calls (gap2 w2))) = None"
    and "j < length (swap_requests (gap2 w2))"
    and "sr_id (swap_requests (gap2 w2) ! j) = sr_id m"
  shows "(net' (length (calls s)) = None \<and> sr_id (swap_requests s ! i) = requestId \<longrightarrow>
            status (swap_requests (snd (handleAcceptRequest net' u requestId (dd, s))) ! i)
              = Matched
            \<and> status (swap_requests (snd (handleRejectRequest net' u requestId (dd, s))) ! i)
              = Rejected)
       \<and> status m = Pending
       \<and> status (swap_requests
            (snd (handleSwipe_among net user dir gap1 gap2 nobody (d, w))) ! j) = Matched
       \<and> (status (swap_requests s ! i) \<noteq> Pending \<longrightarrow>
            swap_requests (snd (handleSwipe_among net' u dir' nobody nobody nobody (d', s))) ! i
              = swap_requests s ! i)"
proof -
  have "swap_requests (snd (handleSwipe_among net user dir gap1 gap2 nobody (d, w)))
          = set_status [sr_id m] Matched (swap_requests (gap2 w2))"
    using handleSwipe_among_world [OF assms(3-5)]
      swipe_among_overwrites [where net = net and ?w2.0 = w2 and ?gap2.0 = gap2
        and m = m and w = w and ?gap1.0 = gap1]
      assms(6,7)
    by simp
  then have "status (swap_requests
            (snd (handleSwipe_among net user dir gap1 gap2 nobody (d, w))) ! j) = Matched"
    using assms(8,9) by (simp add: set_status_nth)
  moreover have "status m = Pending"
    using swipe_lookup_found [OF assms(6)] by simp
  ultimately show ?thesis
    using assms(1,2) swipe_keeps_settled [OF assms(1,2), of net' u dir' d']
    by (simp add: accept_rows reject_rows set_status_nth handleSwipe_among_nobody)
qed

theorem C3_updates_unconditional_witness:
  "status (swap_requests bob_swiped ! 0) = Matched
   \<and> status (swap_requests bob_rejected ! 0) = Rejected
   \<and> status (swap_requests bob_reaccepted ! 0) = Matched
   \<and> status (swap_requests (bob_rejects bob_looked) ! 0) = Rejected
   \<and> status (swap_requests bob_swiped_late ! 0) = Matched
   \<and> swap_requests ann_reswiped ! 0 = swap_requests bob_swiped ! 0"
proof -
  have wr: "wf_world bob_rejected"
    by (simp add: wf_world_def bob_rejected_rows next_id_bob_rejected)
  have g: "\<not> isAnimating bob_deck" "currentIndex bob_deck < length (profiles bob_deck)"
    "profiles bob_deck ! currentIndex bob_deck = profiles bob_deck ! 0"
    by (simp_all add: bob_deck_eq)
  have l: "swipe_lookup online 2 (profiles bob_deck ! currentIndex bob_deck) Right nobody
             ann_swiped =
     (Inr (Some \<lparr>sr_id = 0, created_at = 0, from_user_id = 1, to_user_id = 2,
                  swipe_type = Normal, status = Pending\<rparr>), bob_looked)"
    using bob_lookup_eq by (simp add: g(3))
  have j: "online (length (calls (bob_rejects bob_looked))) = None"
    "0 < length (swap_requests (bob_rejects bob_looked))"
    "sr_id (swap_requests (bob_rejects bob_looked) ! 0)
       = sr_id \<lparr>sr_id = 0, created_at = 0, from_user_id = 1, to_user_id = 2,
                 swipe_type = Normal, status = Pending\<rparr>"
    by (simp_all add: online_None bob_rejects_looked_rows)
  have i: "0 < length (swap_requests bob_swiped)" "0 < length (swap_requests bob_rejected)"
    by (simp_all add: bob_swiped_eq bob_rejected_rows)
  note inst = C3_updates_unconditional [where d = bob_deck and dir = Right and net = online
      and user = 2 and ?gap1.0 = nobody and w = ann_swiped and ?w2.0 = bob_looked
      and ?gap2.0 = bob_rejects and j = 0 and i = 0 and net' = online and requestId = 0
      and dd = bob_dashboard and dir' = Right and d' = ann_deck_again, OF _ _ g(1,2) _ l j]
  from inst [of bob_swiped 2] inst [of bob_swiped 1] wf_bob_swiped i(1)
  have "status (swap_requests bob_rejected ! 0) = Rejected
      \<and> status (swap_requests bob_swiped_late ! 0) = Matched
      \<and> swap_requests ann_reswiped ! 0 = swap_requests bob_swiped ! 0"
    by (simp add: bob_rejected_def bob_swiped_late_def ann_reswiped_def bob_swiped_eq
        online_None handleSwipe_among_nobody)
  moreover
  from inst [of bob_rejected 2] wr i(2)
  have "status (swap_requests bob_reaccepted ! 0) = Matched"
    by (simp add: bob_reaccepted_def bob_rejected_rows online_None)
  ultimately show ?thesis
    by (simp add: bob_swiped_eq bob_rejects_looked_rows)
qed

text \<open>
  C4, as specified: a second submission of the same directed signal stops at the store's
  duplicate report, with no reverse lookup, no status change and no notification.
  Refuted: when Ann swipes on Bob again the insert is refused as a duplicate and no row is
  added, but the lookup, an update and a notification insert follow; Bob's request goes
  from \<open>Pending\<close> to \<open>Matched\<close> and Ann gets a notification.
\<close>

theorem C4_counterexample:
  "fst (insert_swap_request online 1 2 Normal Pending bob_swiped) = Some duplicate_key
   \<and> map sr_id (swap_requests ann_reswiped) = map sr_id (swap_requests bob_swiped)
   \<and> drop (length (calls bob_swiped)) (calls ann_reswiped)
        = [InsertSwapRequest, SelectSwapRequests, UpdateSwapRequests, InsertNotification]
   \<and> map status (swap_requests bob_swiped) = [Matched, Pending]
   \<and> map status (swap_requests ann_reswiped) = [Matched, Matched]
   \<and> map user_id (notifications bob_swiped) = [2]
   \<and> map user_id (notifications ann_reswiped) = [2, 1]"
  by (simp add: bob_swiped_eq ann_reswiped_eq insert_swap_request_def online_def from_to_def)

text \<open>
  C4, amended: on a second submission of the same directed signal (store available) the
  insert is refused with the duplicate-key error and adds no row, and the handler goes on
  as after a first submission: it looks the reverse request up; if exactly one pending
  reverse request is found, that request is set to \<open>Matched\<close> and one notification is
  created, and otherwise nothing but the log of requests changes.
\<close>

theorem C4_resubmission:
  assumes "\<not> isAnimating d" and "currentIndex d < length (profiles d)"
    and "dir = Right \<or> dir = Up"
    and "p = profiles d ! currentIndex d"
    and "list_ex (from_to user (p_id p)) (swap_requests w)"
  shows "fst (insert_swap_request online user (p_id p) (if dir = Up then Super else Normal)
               Pending w) = Some duplicate_key
     \<and> snd (handleSwipe online user dir (d, w)) =
       (case single (pending_from_to (p_id p) user (swap_requests w)) of
          None \<Rightarrow> w\<lparr>calls := calls w @ [InsertSwapRequest, SelectSwapRequests]\<rparr>
        | Some m \<Rightarrow>
            w\<lparr>swap_requests := set_status [sr_id m] Matched (swap_requests w),
              notifications := notifications w @ [match_notification user p],
              calls := calls w @ [InsertSwapRequest, SelectSwapRequests, UpdateSwapRequests,
                                  InsertNotification]\<rparr>)"
  using assms(5) handleSwipe_world_online_duplicate [OF assms]
  by (simp add: insert_swap_request_def online_def)

theorem C4_resubmission_witness:
  "ann_reswiped =
     bob_swiped\<lparr>swap_requests := set_status [1] Matched (swap_requests bob_swiped),
       notifications := notifications bob_swiped
                          @ [match_notification 1 (profiles ann_deck_again ! 0)],
       calls := calls bob_swiped @ [InsertSwapRequest, SelectSwapRequests, UpdateSwapRequests,
                                  InsertNotification]\<rparr>"
  using C4_resubmission [of ann_deck_again Right "profiles ann_deck_again ! 0" 1 bob_swiped]
  by (simp add: ann_reswiped_def ann_deck_again_eq bob_swiped_eq from_to_def pending_from_to_def
      single_def)

text \<open>
  C5, as specified: accepting a request does what a swipe in the reverse direction does
  (both directed records of the pair end \<open>Matched\<close>, with the dispatch of a match
  commit). Refuted on the store after Ann's swipe: Bob's accept leaves the single record
  from Ann to Bob, matched, and notifies Ann; Bob's swipe leaves two records, of which his
  own is pending, and notifies Bob.
\<close>

theorem C5_counterexample:
  "map signal (swap_requests bob_accepted)
     = [(1, 2, Matched)]
   \<and> map signal (swap_requests bob_swiped)
     = [(1, 2, Matched), (2, 1, Pending)]
   \<and> map user_id (notifications bob_accepted) = [1]
   \<and> map user_id (notifications bob_swiped) = [2]"
  by (simp add: bob_accepted_eq bob_swiped_eq signal_def)

text \<open>
  C5, amended: with the store available, accept sets the status of the identified
  request (and of no other row) to \<open>Matched\<close>, whatever it was, inserts no reverse
  record, and creates one notification, for the sender, when the request is in the loaded
  list of pending requests; reject sets the status of the identified request to
  \<open>Rejected\<close>, whatever it was, and creates no notification.
\<close>

theorem C5_accept_and_reject:
  "snd (handleAcceptRequest online u requestId (dd, w)) =
     (case find (\<lambda>r. pr_id r = requestId) (pendingRequests dd) of
        None \<Rightarrow>
          w\<lparr>swap_requests := set_status [requestId] Matched (swap_requests w),
            calls := calls w @ [UpdateSwapRequests, SelectSwapRequests, SelectSwapRequests]\<rparr>
      | Some request \<Rightarrow>
          w\<lparr>swap_requests := set_status [requestId] Matched (swap_requests w),
            notifications := notifications w @ [accept_notification request],
            calls := calls w @ [UpdateSwapRequests, InsertNotification, SelectSwapRequests,
                                SelectSwapRequests]\<rparr>)
   \<and> snd (handleRejectRequest online u requestId (dd, w)) =
       w\<lparr>swap_requests := set_status [requestId] Rejected (swap_requests w),
         calls := calls w @ [UpdateSwapRequests, SelectSwapRequests]\<rparr>"
  by (simp add: accept_world_online reject_world_online)

theorem C5_accept_and_reject_witness:
  "bob_accepted =
     ann_swiped\<lparr>swap_requests := set_status [0] Matched (swap_requests ann_swiped),
       notifications := notifications ann_swiped
                          @ [accept_notification (pendingRequests bob_dashboard ! 0)],
       calls := calls ann_swiped @ [UpdateSwapRequests, InsertNotification, SelectSwapRequests,
                                SelectSwapRequests]\<rparr>
   \<and> bob_rejected =
     bob_swiped\<lparr>swap_requests := set_status [0] Rejected (swap_requests bob_swiped),
       calls := calls bob_swiped @ [UpdateSwapRequests, SelectSwapRequests]\<rparr>"
  using C5_accept_and_reject [of 2 0 bob_dashboard ann_swiped]
    C5_accept_and_reject [of 2 0 bob_dashboard bob_swiped]
  by (simp add: bob_accepted_def bob_rejected_def bob_dashboard_eq)

text \<open>
  C6, as specified: the list of matches holds at most one entry per matched pair.
  Refuted: once both requests between Ann and Bob are matched, Ann's list of matches has
  two entries, one per directed request.
\<close>

theorem C6_counterexample:
  "map signal (swap_requests ann_reswiped) = [(1, 2, Matched), (2, 1, Matched)]
   \<and> map sr_id (swap_requests ann_reswiped) = [0, 1]
   \<and> map m_id (matches (fst (fetchMatches online 1 (dashboard0, ann_reswiped)))) = [0, 1]"
  by (simp add: ann_reswiped_eq fetchMatches_def select_matched_def online_def dashboard0_def
      embed_from_user_def is_match_of_def transform_match_def ann_row_def bob_row_def
      signal_def)

text \<open>
  C6, amended: when the query succeeds and every sender has a row in \<^verbatim>\<open>users\<close>,
  the list of matches of a user holds one entry per request with status \<open>Matched\<close> of
  which the user is sender or receiver, in table order and without merging the two
  requests of a pair; a request that is not \<open>Matched\<close> (such as a lone pending one) has
  no entry, for either user.
\<close>

theorem C6_fetchMatches:
  assumes "net (length (calls w)) = None"
    and "list_all (\<lambda>r. list_ex (\<lambda>u. u_id u = from_user_id r) (users w)) (swap_requests w)"
    and "wf_world w"
  shows "map m_id (matches (fst (fetchMatches net user (d, w))))
           = map sr_id (filter (is_match_of user) (swap_requests w))
       \<and> (\<forall>r \<in> set (swap_requests w). status r \<noteq> Matched \<longrightarrow>
             sr_id r \<notin> set (map m_id (matches (fst (fetchMatches net user (d, w))))))"
proof -
  have "sr_id r \<notin> set (map sr_id (filter (is_match_of user) (swap_requests w)))"
    if "r \<in> set (swap_requests w)" and "status r \<noteq> Matched" for r
  proof
    assume "sr_id r \<in> set (map sr_id (filter (is_match_of user) (swap_requests w)))"
    then obtain r' where "r' \<in> set (swap_requests w)" "is_match_of user r'" "sr_id r' = sr_id r"
      by auto
    with that assms(3) have "r' = r"
      by (auto simp add: wf_world_def distinct_map inj_on_def)
    with \<open>is_match_of user r'\<close> that(2) show False by (simp add: is_match_of_def)
  qed
  then show ?thesis using fetchMatches_entries [of net w user d] assms(1,2) by simp
qed

theorem C6_fetchMatches_witness:
  "map m_id (matches (fst (fetchMatches online 2 (dashboard0, bob_swiped)))) = [0]
   \<and> matches (fst (fetchMatches online 1 (dashboard0, ann_swiped))) = []
   \<and> matches (fst (fetchMatches online 2 (dashboard0, ann_swiped))) = []"
proof -
  have "wf_world ann_swiped"
    by (simp add: wf_world_def ann_swiped_eq)
  from C6_fetchMatches [of online ann_swiped _ dashboard0] this
  have "matches (fst (fetchMatches online v (dashboard0, ann_swiped))) = []" for v
    by (simp add: ann_swiped_eq online_def is_match_of_def ann_row_def bob_row_def)
  moreover from C6_fetchMatches [of online bob_swiped 2 dashboard0] wf_bob_swiped
  have "map m_id (matches (fst (fetchMatches online 2 (dashboard0, bob_swiped)))) = [0]"
    by (simp add: bob_swiped_eq online_def is_match_of_def ann_row_def bob_row_def)
  ultimately show ?thesis by simp
qed







text \<open>
  C9. Two submissions that differ only in kind, a right swipe (normal) and an up swipe
  (super), on stores that agree up to the kinds of their requests: afterwards the stores
  agree again up to kinds, so every status and every notification is the same and the
  same requests were sent, and the pages agree up to the direction shown, so a match is
  announced in both or in neither.
\<close>

theorem C9_kind_irrelevant:
  assumes "blind_kind w1 = blind_kind w2"
    and "dir1 = Right \<or> dir1 = Up" and "dir2 = Right \<or> dir2 = Up"
  shows "blind_kind (snd (handleSwipe net user dir1 (d, w1)))
           = blind_kind (snd (handleSwipe net user dir2 (d, w2)))
       \<and> map status (swap_requests (snd (handleSwipe net user dir1 (d, w1))))
           = map status (swap_requests (snd (handleSwipe net user dir2 (d, w2))))
       \<and> notifications (snd (handleSwipe net user dir1 (d, w1)))
           = notifications (snd (handleSwipe net user dir2 (d, w2)))
       \<and> blind_dir (fst (handleSwipe net user dir1 (d, w1)))
           = blind_dir (fst (handleSwipe net user dir2 (d, w2)))"
  using handleSwipe_blind [OF assms, of net user d]
  by (auto simp add: blind_kind_eq_iff intro: map_status_erase)

theorem C9_kind_irrelevant_witness:
  "map status (swap_requests (snd (handleSwipe online 2 Up (bob_deck, ann_swiped))))
     = map status (swap_requests bob_swiped)
   \<and> notifications (snd (handleSwipe online 2 Up (bob_deck, ann_swiped)))
     = notifications bob_swiped
   \<and> map swipe_type (swap_requests (snd (handleSwipe online 2 Up (bob_deck, ann_swiped))))
     = [Normal, Super]
   \<and> map swipe_type (swap_requests bob_swiped) = [Normal, Normal]"
proof -
  have "map swipe_type (swap_requests (snd (handleSwipe online 2 Up (bob_deck, ann_swiped))))
     = [Normal, Super]"
    by (simp add: bob_deck_eq ann_swiped_eq swipe_defs store_defs online_def)
  with C9_kind_irrelevant [of ann_swiped ann_swiped Up Right online 2 bob_deck]
  show ?thesis by (simp add: bob_swiped_def [symmetric] bob_swiped_eq)
qed

text \<open>
  C10. The counter of daily swipes is only ever written. A swipe that passes the two
  guards (no animation running, a profile left) sets it to one less, but not below zero,
  and reaches the store with the same effect whatever the counter says. In particular, at
  any count, zero included, a right or up swipe sends its insert first, and with the store
  available it stores the pending request (unless the pair has one) and runs the
  reconciliation: the lookup of the reverse request and, when exactly one pending reverse
  request is found, the update of that request to \<open>Matched\<close> and the notification.
  A left or down swipe submits no signal and leaves the store alone.
\<close>

theorem C10_counter_never_gates:
  assumes "\<not> isAnimating d" and "currentIndex d < length (profiles d)"
    and "p = profiles d ! currentIndex d"
    and "rows1 = (if list_ex (from_to user (p_id p)) (swap_requests w) then swap_requests w
                  else swap_requests w @
                    [\<lparr>sr_id = next_id w, created_at = clock w, from_user_id = user,
                      to_user_id = p_id p,
                      swipe_type = (if dir = Up then Super else Normal),
                      status = Pending\<rparr>])"
    and "nid = (if list_ex (from_to user (p_id p)) (swap_requests w) then next_id w
                else Suc (next_id w))"
  shows "dailySwipes (fst (handleSwipe net user dir (d, w))) = max 0 (dailySwipes d - 1)
       \<and> snd (handleSwipe net user dir (d\<lparr>dailySwipes := n\<rparr>, w))
           = snd (handleSwipe net user dir (d, w))
       \<and> (dir = Right \<or> dir = Up \<longrightarrow>
            take (Suc (length (calls w)))
              (calls (snd (handleSwipe net user dir (d\<lparr>dailySwipes := n\<rparr>, w))))
              = calls w @ [InsertSwapRequest])
       \<and> (dir = Right \<or> dir = Up \<longrightarrow>
            snd (handleSwipe online user dir (d\<lparr>dailySwipes := n\<rparr>, w)) =
              (case single (pending_from_to (p_id p) user rows1) of
                 None \<Rightarrow>
                   w\<lparr>swap_requests := rows1, next_id := nid,
                     calls := calls w @ [InsertSwapRequest, SelectSwapRequests]\<rparr>
               | Some m \<Rightarrow>
                   w\<lparr>swap_requests := set_status [sr_id m] Matched rows1,
                     notifications := notifications w @ [match_notification user p],
                     next_id := nid,
                     calls := calls w @ [InsertSwapRequest, SelectSwapRequests,
                                         UpdateSwapRequests, InsertNotification]\<rparr>))
       \<and> (dir = Left \<or> dir = Down \<longrightarrow>
            snd (handleSwipe net user dir (d\<lparr>dailySwipes := n\<rparr>, w)) = w)"
proof -
  have "dailySwipes (fst (handleSwipe net user dir (d, w))) = max 0 (dailySwipes d - 1)"
    using assms(1,2) by (simp add: handleSwipe_def Let_def split: prod.splits)
  moreover have "snd (handleSwipe net user dir (d\<lparr>dailySwipes := n\<rparr>, w))
           = snd (handleSwipe net user dir (d, w))"
    by (simp add: handleSwipe_world)
  moreover have "take (Suc (length (calls w)))
              (calls (snd (handleSwipe net user dir (d\<lparr>dailySwipes := n\<rparr>, w))))
              = calls w @ [InsertSwapRequest]" if "dir = Right \<or> dir = Up"
    using handleSwipe_first_call [of "d\<lparr>dailySwipes := n\<rparr>" dir w net user] assms(1,2) that
    by simp
  moreover have "snd (handleSwipe online user dir (d\<lparr>dailySwipes := n\<rparr>, w)) =
              (case single (pending_from_to (p_id p) user rows1) of
                 None \<Rightarrow>
                   w\<lparr>swap_requests := rows1, next_id := nid,
                     calls := calls w @ [InsertSwapRequest, SelectSwapRequests]\<rparr>
               | Some m \<Rightarrow>
                   w\<lparr>swap_requests := set_status [sr_id m] Matched rows1,
                     notifications := notifications w @ [match_notification user p],
                     next_id := nid,
                     calls := calls w @ [InsertSwapRequest, SelectSwapRequests,
                                         UpdateSwapRequests, InsertNotification]\<rparr>)"
    if "dir = Right \<or> dir = Up"
  proof -
    have run: "snd (handleSwipe online user dir (d\<lparr>dailySwipes := n\<rparr>, w))
            = snd (swipe_try online user p dir w)"
      using assms(1-3) that by (auto simp add: handleSwipe_world)
    show ?thesis
    proof (cases "list_ex (from_to user (p_id p)) (swap_requests w)")
      case True
      then have ins: "insert_swap_request online user (p_id p) k Pending w
               = (Some duplicate_key, issue InsertSwapRequest w)" for k
        by (simp add: insert_swap_request_def online_def)
      from True assms(4,5) have r: "rows1 = swap_requests w" "nid = next_id w" by simp_all
      show ?thesis
        unfolding run swipe_try_def ins r
        by (simp add: duplicate_key_def select_single_pending_def update_status_def
            insert_notification_def issue_def online_def split: option.splits)
    next
      case False
      define new where "new = \<lparr>sr_id = next_id w, created_at = clock w,
                        from_user_id = user, to_user_id = p_id p,
                        swipe_type = (if dir = Up then Super else Normal),
                        status = Pending\<rparr>"
      from False have ins: "insert_swap_request online user (p_id p)
                 (if dir = Up then Super else Normal) Pending w
               = (None, (issue InsertSwapRequest w)
                    \<lparr>swap_requests := swap_requests w @ [new], next_id := Suc (next_id w)\<rparr>)"
        by (simp add: insert_swap_request_def online_def new_def)
      from False assms(4,5) have r: "rows1 = swap_requests w @ [new]" "nid = Suc (next_id w)"
        by (simp_all add: new_def)
      show ?thesis
        unfolding run swipe_try_def ins r
        by (simp add: select_single_pending_def update_status_def
            insert_notification_def issue_def online_def split: option.splits)
    qed
  qed
  moreover have "snd (handleSwipe net user dir (d\<lparr>dailySwipes := n\<rparr>, w)) = w"
    if "dir = Left \<or> dir = Down"
    using that by (auto simp add: handleSwipe_world)
  ultimately show ?thesis by blast
qed

theorem C10_counter_never_gates_witness:
  "dailySwipes (fst (handleSwipe online 2 Right (bob_deck\<lparr>dailySwipes := 0\<rparr>, ann_swiped))) = 0
   \<and> swap_requests (snd (handleSwipe online 2 Right (bob_deck\<lparr>dailySwipes := 0\<rparr>, ann_swiped)))
       = [\<lparr>sr_id = 0, created_at = 0, from_user_id = 1, to_user_id = 2, swipe_type = Normal,
           status = Matched\<rparr>,
          \<lparr>sr_id = 1, created_at = 0, from_user_id = 2, to_user_id = 1, swipe_type = Normal,
           status = Pending\<rparr>]
   \<and> notifications (snd (handleSwipe online 2 Right (bob_deck\<lparr>dailySwipes := 0\<rparr>, ann_swiped)))
       = [\<lparr>user_id = 2, n_type = ''match'', title = ''New Match!'',
           message = ''You matched with Ann!''\<rparr>]
   \<and> calls (snd (handleSwipe online 2 Right (bob_deck\<lparr>dailySwipes := 0\<rparr>, ann_swiped)))
       = [InsertSwapRequest, SelectSwapRequests, InsertSwapRequest, SelectSwapRequests,
          UpdateSwapRequests, InsertNotification]
   \<and> snd (handleSwipe online 2 Left (bob_deck\<lparr>dailySwipes := 0\<rparr>, ann_swiped)) = ann_swiped"
proof -
  define d0 where "d0 = bob_deck\<lparr>dailySwipes := 0\<rparr>"
  have g: "\<not> isAnimating d0" "currentIndex d0 < length (profiles d0)"
    by (simp_all add: d0_def bob_deck_eq)
  have d: "d0\<lparr>dailySwipes := 0\<rparr> = d0" "dailySwipes d0 = 0"
    by (simp_all add: d0_def)
  note inst = C10_counter_never_gates [where d = d0 and w = ann_swiped and n = 0
      and net = online and user = 2, OF g refl refl refl]
  from inst [of Right]
  have "dailySwipes (fst (handleSwipe online 2 Right (d0, ann_swiped))) = 0
   \<and> snd (handleSwipe online 2 Right (d0, ann_swiped)) =
       \<lparr>users = [ann_row, bob_row], swap_requests =
         [\<lparr>sr_id = 0, created_at = 0, from_user_id = 1, to_user_id = 2, swipe_type = Normal,
           status = Matched\<rparr>,
          \<lparr>sr_id = 1, created_at = 0, from_user_id = 2, to_user_id = 1, swipe_type = Normal,
           status = Pending\<rparr>],
        notifications = [\<lparr>user_id = 2, n_type = ''match'', title = ''New Match!'',
                          message = ''You matched with Ann!''\<rparr>],
        next_id = 2, clock = 0,
        calls = [InsertSwapRequest, SelectSwapRequests, InsertSwapRequest, SelectSwapRequests,
                 UpdateSwapRequests, InsertNotification]\<rparr>"
    by (simp add: d d0_def bob_deck_eq ann_swiped_eq from_to_def pending_from_to_def single_def
        set_status_def match_notification_def)
  moreover from inst [of Left]
  have "snd (handleSwipe online 2 Left (d0, ann_swiped)) = ann_swiped"
    by (simp add: d)
  moreover
  have "calls (snd (handleSwipe online 2 Right (d0, ann_swiped)))
       = [InsertSwapRequest, SelectSwapRequests, InsertSwapRequest, SelectSwapRequests,
          UpdateSwapRequests, InsertNotification]"
    by (simp add: d0_def bob_deck_eq ann_swiped_eq swipe_defs store_defs online_def)
  ultimately show ?thesis by (simp add: d0_def)
qed

end
